theory Spec2Isabelle
  imports Complex_Main "HOL-Library.Word" "HOL-Library.AList" "HOL-Library.FSet"
begin

unbundle bit_operations_syntax

section \<open>Configuration and block identifiers\<close>

text \<open>
  Constants of \<^verbatim>\<open>config.ts\<close>. JavaScript numbers that only ever hold integers
  (chunk coordinates, indices, sequence numbers, millisecond timestamps) are \<open>int\<close>;
  numbers that hold fractions (positions, velocities, noise values) are idealised as
  \<open>real\<close>, without IEEE rounding.

  Definitions carry the names of the source. A field of a record is a constant of the
  whole theory, so a field whose name is also a variable or a field elsewhere (\<open>cx\<close>,
  \<open>x\<close>, \<open>seed\<close>, \<open>hotbar\<close>, ...) is prefixed with a short tag of its record.
  The body of a loop that the source writes inline is a definition of its own, named
  after what it does, and the loop is a \<open>fold\<close> over the range of its counter.
\<close>

definition CHUNK_SIZE :: int where "CHUNK_SIZE = 16"
definition WORLD_HEIGHT :: int where "WORLD_HEIGHT = 96"
definition VIEW_DISTANCE_CHUNKS :: int where "VIEW_DISTANCE_CHUNKS = 10"
definition WORLD_SEA_LEVEL :: int where "WORLD_SEA_LEVEL = 28"
definition HOTBAR_SIZE :: int where "HOTBAR_SIZE = 9"
definition MAX_STACK :: int where "MAX_STACK = 64"
definition PLAYER_EYE_HEIGHT :: real where "PLAYER_EYE_HEIGHT = 162 / 100"

text \<open>
  \<^verbatim>\<open>enum BlockId\<close> of \<^verbatim>\<open>types.ts\<close>. At run time a block id is the number
  stored in a \<^verbatim>\<open>Uint16Array\<close> cell, so it is a 16-bit word here and the enum
  members are names for the eight codes.
\<close>

type_synonym BlockId = "16 word"

abbreviation Air :: BlockId where "Air \<equiv> 0"
abbreviation Grass :: BlockId where "Grass \<equiv> 1"
abbreviation Dirt :: BlockId where "Dirt \<equiv> 2"
abbreviation Stone :: BlockId where "Stone \<equiv> 3"
abbreviation Wood :: BlockId where "Wood \<equiv> 4"
abbreviation Leaves :: BlockId where "Leaves \<equiv> 5"
abbreviation Sand :: BlockId where "Sand \<equiv> 6"
abbreviation Water :: BlockId where "Water \<equiv> 7"

section \<open>ChunkData (world/chunk.ts)\<close>

record ChunkData =
  cd_cx :: int
  cd_cz :: int
  blocks :: "BlockId list"

text \<open>\<^verbatim>\<open>new ChunkData(cx, cz)\<close>: a zero-filled array of 16 * 96 * 16 cells;
  \<^verbatim>\<open>new ChunkData(cx, cz, existing)\<close> adopts the given array whatever its length.\<close>

definition ChunkData_new :: "int \<Rightarrow> int \<Rightarrow> ChunkData" where
  "ChunkData_new cx cz =
     \<lparr>cd_cx = cx, cd_cz = cz, blocks = replicate (nat (CHUNK_SIZE * WORLD_HEIGHT * CHUNK_SIZE)) Air\<rparr>"

definition ChunkData_existing :: "int \<Rightarrow> int \<Rightarrow> BlockId list \<Rightarrow> ChunkData" where
  "ChunkData_existing cx cz existing = \<lparr>cd_cx = cx, cd_cz = cz, blocks = existing\<rparr>"

definition index :: "int \<Rightarrow> int \<Rightarrow> int \<Rightarrow> int" where
  "index localX y localZ = localX + localZ * CHUNK_SIZE + y * CHUNK_SIZE * CHUNK_SIZE"

definition inBounds :: "int \<Rightarrow> int \<Rightarrow> int \<Rightarrow> bool" where
  "inBounds localX y localZ \<longleftrightarrow>
     localX \<ge> 0 \<and> localX < CHUNK_SIZE \<and> localZ \<ge> 0 \<and> localZ < CHUNK_SIZE \<and>
     y \<ge> 0 \<and> y < WORLD_HEIGHT"

text \<open>
  Reading a typed array past its end yields \<^verbatim>\<open>undefined\<close> (here \<open>None\<close>) and
  writing past its end is ignored.
\<close>

definition typed_read :: "'a list \<Rightarrow> int \<Rightarrow> 'a option" where
  "typed_read xs i = (if 0 \<le> i \<and> nat i < length xs then Some (xs ! nat i) else None)"

definition typed_write :: "'a list \<Rightarrow> int \<Rightarrow> 'a \<Rightarrow> 'a list" where
  "typed_write xs i v = (if 0 \<le> i \<and> nat i < length xs then xs[nat i := v] else xs)"

definition ChunkData_get :: "ChunkData \<Rightarrow> int \<Rightarrow> int \<Rightarrow> int \<Rightarrow> BlockId option" where
  "ChunkData_get c localX y localZ =
     (if \<not> inBounds localX y localZ then Some Air
      else typed_read (blocks c) (index localX y localZ))"

definition ChunkData_set :: "ChunkData \<Rightarrow> int \<Rightarrow> int \<Rightarrow> int \<Rightarrow> BlockId \<Rightarrow> ChunkData" where
  "ChunkData_set c localX y localZ blockId =
     (if \<not> inBounds localX y localZ then c
      else c\<lparr>blocks := typed_write (blocks c) (index localX y localZ) blockId\<rparr>)"

section \<open>World coordinate mapping (world/world.ts)\<close>

text \<open>JavaScript's \<^verbatim>\<open>%\<close> truncates: the result has the sign of the dividend.\<close>

definition js_rem :: "int \<Rightarrow> int \<Rightarrow> int" where
  "js_rem a b = sgn a * (\<bar>a\<bar> mod \<bar>b\<bar>)"

definition floorDiv :: "int \<Rightarrow> int \<Rightarrow> int" where
  "floorDiv a b = \<lfloor>real_of_int a / real_of_int b\<rfloor>"

definition mod_js :: "int \<Rightarrow> int \<Rightarrow> int" where
  "mod_js a b = (let result = js_rem a b in if result < 0 then result + b else result)"

definition worldToChunk :: "real \<Rightarrow> real \<Rightarrow> int \<times> int" where
  "worldToChunk x z = (floorDiv \<lfloor>x\<rfloor> CHUNK_SIZE, floorDiv \<lfloor>z\<rfloor> CHUNK_SIZE)"

record ChunkLocal =
  loc_cx :: int
  loc_cz :: int
  loc_lx :: int
  loc_lz :: int

definition worldToChunkLocal :: "real \<Rightarrow> real \<Rightarrow> ChunkLocal" where
  "worldToChunkLocal x z =
     (let fx = \<lfloor>x\<rfloor>; fz = \<lfloor>z\<rfloor>
      in \<lparr>loc_cx = floorDiv fx CHUNK_SIZE, loc_cz = floorDiv fz CHUNK_SIZE,
          loc_lx = mod_js fx CHUNK_SIZE, loc_lz = mod_js fz CHUNK_SIZE\<rparr>)"


section \<open>Value noise (noise.ts)\<close>

text \<open>
  \<^verbatim>\<open>n | 0\<close> keeps the low 32 bits of an integer; \<^verbatim>\<open>Math.imul\<close> multiplies
  modulo 2^32; \<^verbatim>\<open>>>>\<close> is the logical right shift. A 32-bit word carries all three.
\<close>

definition toInt32 :: "int \<Rightarrow> 32 word" where
  "toInt32 n = word_of_int n"

definition imul :: "32 word \<Rightarrow> 32 word \<Rightarrow> 32 word" where
  "imul a b = a * b"

definition hashInt :: "32 word \<Rightarrow> nat" where
  "hashInt n =
     (let x0 = n;
          x1 = imul (x0 XOR drop_bit 16 x0) 0x85ebca6b;
          x2 = imul (x1 XOR drop_bit 13 x1) 0xc2b2ae35
      in unat (x2 XOR drop_bit 16 x2))"

definition hash2 :: "32 word \<Rightarrow> int \<Rightarrow> int \<Rightarrow> real" where
  "hash2 seed x z =
     (let n = hashInt (seed XOR imul (toInt32 x) 0x1f123bb5 XOR imul (toInt32 z) 0x5f356495)
      in real n / 0xffffffff)"

definition lerp :: "real \<Rightarrow> real \<Rightarrow> real \<Rightarrow> real" where
  "lerp a b t = a + (b - a) * t"

definition smoothstep :: "real \<Rightarrow> real" where
  "smoothstep t = t * t * (3 - 2 * t)"

record ValueNoise2D =
  noise_seed :: "32 word"

definition ValueNoise2D_new :: "32 word \<Rightarrow> ValueNoise2D" where
  "ValueNoise2D_new seed = \<lparr>noise_seed = seed\<rparr>"

definition sample :: "ValueNoise2D \<Rightarrow> real \<Rightarrow> real \<Rightarrow> real" where
  "sample ns x z =
     (let x0 = \<lfloor>x\<rfloor>; z0 = \<lfloor>z\<rfloor>; x1 = x0 + 1; z1 = z0 + 1;
          tx = smoothstep (x - of_int x0);
          tz = smoothstep (z - of_int z0);
          v00 = hash2 (noise_seed ns) x0 z0;
          v10 = hash2 (noise_seed ns) x1 z0;
          v01 = hash2 (noise_seed ns) x0 z1;
          v11 = hash2 (noise_seed ns) x1 z1;
          a = lerp v00 v10 tx;
          b = lerp v01 v11 tx
      in lerp a b tz)"

text \<open>The octave loop of \<^verbatim>\<open>fbm\<close>; the first argument counts the octaves left.\<close>

fun fbm_loop :: "nat \<Rightarrow> ValueNoise2D \<Rightarrow> real \<Rightarrow> real \<Rightarrow> real \<Rightarrow> real \<Rightarrow> real \<Rightarrow> real \<Rightarrow> real \<times> real" where
  "fbm_loop 0 ns x z frequency amplitude sm nrm = (sm, nrm)"
| "fbm_loop (Suc k) ns x z frequency amplitude sm nrm =
     fbm_loop k ns x z (frequency * 2) (amplitude * (1 / 2))
       (sm + sample ns (x * frequency) (z * frequency) * amplitude) (nrm + amplitude)"

definition fbm :: "ValueNoise2D \<Rightarrow> real \<Rightarrow> real \<Rightarrow> nat \<Rightarrow> real" where
  "fbm ns x z octaves = (case fbm_loop octaves ns x z 1 1 0 0 of (sm, nrm) \<Rightarrow> sm / nrm)"

definition hashRange :: "32 word \<Rightarrow> int \<Rightarrow> int \<Rightarrow> real" where
  "hashRange seed x z = hash2 seed x z"

section \<open>Procedural generator (world/generator.ts)\<close>

record WorldGenerator =
  gen_seed :: "32 word"
  heightNoise :: ValueNoise2D
  detailNoise :: ValueNoise2D
  caveNoise :: ValueNoise2D
  treeSeed :: "32 word"

definition WorldGenerator_new :: "int \<Rightarrow> WorldGenerator" where
  "WorldGenerator_new seed =
     (let s = toInt32 seed
      in \<lparr>gen_seed = s,
          heightNoise = ValueNoise2D_new (s XOR 0x89ab23),
          detailNoise = ValueNoise2D_new (s XOR 0x3281cd),
          caveNoise = ValueNoise2D_new (s XOR 0x7722ff),
          treeSeed = s XOR 0x44aa1f\<rparr>)"

definition getHeight :: "WorldGenerator \<Rightarrow> int \<Rightarrow> int \<Rightarrow> int" where
  "getHeight g wx wz =
     (let base = fbm (heightNoise g) (of_int wx * (15 / 1000)) (of_int wz * (15 / 1000)) 5;
          detail = fbm (detailNoise g) (of_int wx * (5 / 100)) (of_int wz * (5 / 100)) 3;
          h = 22 + base * 30 + detail * 6
      in max 6 (min (WORLD_HEIGHT - 8) \<lfloor>h\<rfloor>))"

text \<open>The block chosen for one cell in the innermost loop of \<^verbatim>\<open>generateChunk\<close>.\<close>

definition column_block :: "WorldGenerator \<Rightarrow> int \<Rightarrow> int \<Rightarrow> int \<Rightarrow> int \<Rightarrow> BlockId" where
  "column_block g wx wz height y =
     (if y \<le> height then
        (let stoneDepth = height - 4 in
         if y \<le> stoneDepth then
           (if y > 8 \<and> y < height - 3
               \<and> fbm (caveNoise g) (of_int wx * (8 / 100)) (of_int (wz + y) * (8 / 100)) 3 > 72 / 100
            then Air else Stone)
         else if y = height then (if height \<le> WORLD_SEA_LEVEL + 1 then Sand else Grass)
         else (if height \<le> WORLD_SEA_LEVEL + 1 then Sand else Dirt))
      else if y \<le> WORLD_SEA_LEVEL then Water
      else Air)"

text \<open>The body of the column loops of \<^verbatim>\<open>generateChunk\<close>.\<close>

definition fill_column :: "WorldGenerator \<Rightarrow> int \<Rightarrow> int \<Rightarrow> int \<Rightarrow> int \<Rightarrow> ChunkData \<Rightarrow> ChunkData" where
  "fill_column g cx cz lx lz chunk =
     (let wx = cx * CHUNK_SIZE + lx;
          wz = cz * CHUNK_SIZE + lz;
          height = getHeight g wx wz
      in fold (\<lambda>y c. ChunkData_set c lx y lz (column_block g wx wz height y))
           [0..WORLD_HEIGHT - 1] chunk)"

definition findSurface :: "ChunkData \<Rightarrow> int \<Rightarrow> int \<Rightarrow> int" where
  "findSurface chunk lx lz =
     (case find (\<lambda>y. ChunkData_get chunk lx y lz \<noteq> Some Air
                    \<and> ChunkData_get chunk lx y lz \<noteq> Some Water)
             (rev [0..WORLD_HEIGHT - 1]) of
        Some y \<Rightarrow> y
      | None \<Rightarrow> 0)"

text \<open>One canopy cell of the crown loops of \<^verbatim>\<open>generateTrees\<close>.\<close>

definition leaf_at :: "int \<Rightarrow> int \<Rightarrow> int \<Rightarrow> int \<Rightarrow> int \<Rightarrow> int \<Rightarrow> ChunkData \<Rightarrow> ChunkData" where
  "leaf_at lx lz crownBase ox oz oy chunk =
     (let distance = \<bar>ox\<bar> + \<bar>oz\<bar> + oy in
      if distance > 4 then chunk
      else
        (let tx = lx + ox; tz = lz + oz; ty = crownBase + oy in
         if tx < 0 \<or> tz < 0 \<or> tx \<ge> CHUNK_SIZE \<or> tz \<ge> CHUNK_SIZE \<or> ty \<ge> WORLD_HEIGHT then chunk
         else if ChunkData_get chunk tx ty tz = Some Air then ChunkData_set chunk tx ty tz Leaves
         else chunk))"

text \<open>The body of the column loops of \<^verbatim>\<open>generateTrees\<close>, with its three \<^verbatim>\<open>continue\<close>s.\<close>

definition tree_at :: "WorldGenerator \<Rightarrow> int \<Rightarrow> int \<Rightarrow> ChunkData \<Rightarrow> ChunkData" where
  "tree_at g lx lz chunk =
     (let wx = cd_cx chunk * CHUNK_SIZE + lx;
          wz = cd_cz chunk * CHUNK_SIZE + lz;
          chance = hashRange (treeSeed g) wx wz
      in
      if chance < 992 / 1000 then chunk
      else
        (let groundY = findSurface chunk lx lz in
         if groundY < WORLD_SEA_LEVEL + 1 \<or> groundY > WORLD_HEIGHT - 12 then chunk
         else if ChunkData_get chunk lx groundY lz \<noteq> Some Grass then chunk
         else
           (let trunkHeight = 4 + \<lfloor>hashRange (treeSeed g XOR 0xaa1) wx wz * 3\<rfloor>;
                trunk = fold (\<lambda>y c. ChunkData_set c lx (groundY + y) lz Wood) [1..trunkHeight] chunk;
                crownBase = groundY + trunkHeight - 1
            in fold (\<lambda>ox c. fold (\<lambda>oz c. fold (\<lambda>oy c. leaf_at lx lz crownBase ox oz oy c)
                                          [0..2] c) [-2..2] c) [-2..2] trunk)))"

definition generateTrees :: "WorldGenerator \<Rightarrow> ChunkData \<Rightarrow> ChunkData" where
  "generateTrees g chunk =
     fold (\<lambda>lx c. fold (\<lambda>lz c. tree_at g lx lz c) [2..CHUNK_SIZE - 2 - 1] c)
       [2..CHUNK_SIZE - 2 - 1] chunk"

definition generateChunk :: "WorldGenerator \<Rightarrow> int \<Rightarrow> int \<Rightarrow> ChunkData" where
  "generateChunk g cx cz =
     (let chunk = ChunkData_new cx cz;
          filled = fold (\<lambda>lx c. fold (\<lambda>lz c. fill_column g cx cz lx lz c) [0..CHUNK_SIZE - 1] c)
                     [0..CHUNK_SIZE - 1] chunk
      in generateTrees g filled)"

subsection \<open>Generation in memory\<close>

text \<open>
  \<^verbatim>\<open>generateChunk\<close> builds its chunk in place: \<^verbatim>\<open>new ChunkData(cx, cz)\<close> allocates a
  zero-filled \<^verbatim>\<open>Uint16Array\<close>, \<^verbatim>\<open>chunk.set\<close> writes into it, and \<^verbatim>\<open>generateTrees\<close> and
  \<^verbatim>\<open>findSurface\<close> read it back with \<^verbatim>\<open>chunk.get\<close>. These reads are the only reads of
  mutable state in generator.ts and noise.ts: the fields of the generator and of its
  noise objects are \<^verbatim>\<open>readonly\<close> and assigned once by the constructors, and no clock,
  random source or global is used.

  The definitions above pass the chunk along as a value. The definitions below follow
  the code on memory instead. Memory is the list of the typed arrays allocated so far,
  a reference is a position in it, and a \<^verbatim>\<open>ChunkData\<close> object is its two coordinates
  and the reference to its array. A reference is only ever made by an allocation, so
  it is a position inside the list.
\<close>

type_synonym Memory = "BlockId list list"

record ChunkObject =
  obj_cx :: int
  obj_cz :: int
  obj_blocks :: nat

definition new_ChunkData :: "int \<Rightarrow> int \<Rightarrow> Memory \<Rightarrow> ChunkObject \<times> Memory" where
  "new_ChunkData cx cz mem =
     (\<lparr>obj_cx = cx, obj_cz = cz, obj_blocks = length mem\<rparr>,
      mem @ [replicate (nat (CHUNK_SIZE * WORLD_HEIGHT * CHUNK_SIZE)) Air])"

definition chunk_get :: "Memory \<Rightarrow> ChunkObject \<Rightarrow> int \<Rightarrow> int \<Rightarrow> int \<Rightarrow> BlockId option" where
  "chunk_get mem c localX y localZ =
     (if \<not> inBounds localX y localZ then Some Air
      else typed_read (mem ! obj_blocks c) (index localX y localZ))"

definition chunk_set :: "ChunkObject \<Rightarrow> int \<Rightarrow> int \<Rightarrow> int \<Rightarrow> BlockId \<Rightarrow> Memory \<Rightarrow> Memory" where
  "chunk_set c localX y localZ blockId mem =
     (if \<not> inBounds localX y localZ then mem
      else mem[obj_blocks c := typed_write (mem ! obj_blocks c) (index localX y localZ) blockId])"

definition fill_column_mem :: "WorldGenerator \<Rightarrow> int \<Rightarrow> int \<Rightarrow> int \<Rightarrow> int \<Rightarrow> ChunkObject
      \<Rightarrow> Memory \<Rightarrow> Memory" where
  "fill_column_mem g cx cz lx lz c mem =
     (let wx = cx * CHUNK_SIZE + lx;
          wz = cz * CHUNK_SIZE + lz;
          height = getHeight g wx wz
      in fold (\<lambda>y m. chunk_set c lx y lz (column_block g wx wz height y) m)
           [0..WORLD_HEIGHT - 1] mem)"

definition findSurface_mem :: "Memory \<Rightarrow> ChunkObject \<Rightarrow> int \<Rightarrow> int \<Rightarrow> int" where
  "findSurface_mem mem c lx lz =
     (case find (\<lambda>y. chunk_get mem c lx y lz \<noteq> Some Air \<and> chunk_get mem c lx y lz \<noteq> Some Water)
             (rev [0..WORLD_HEIGHT - 1]) of
        Some y \<Rightarrow> y
      | None \<Rightarrow> 0)"

definition leaf_at_mem :: "int \<Rightarrow> int \<Rightarrow> int \<Rightarrow> int \<Rightarrow> int \<Rightarrow> int \<Rightarrow> ChunkObject
      \<Rightarrow> Memory \<Rightarrow> Memory" where
  "leaf_at_mem lx lz crownBase ox oz oy c mem =
     (let distance = \<bar>ox\<bar> + \<bar>oz\<bar> + oy in
      if distance > 4 then mem
      else
        (let tx = lx + ox; tz = lz + oz; ty = crownBase + oy in
         if tx < 0 \<or> tz < 0 \<or> tx \<ge> CHUNK_SIZE \<or> tz \<ge> CHUNK_SIZE \<or> ty \<ge> WORLD_HEIGHT then mem
         else if chunk_get mem c tx ty tz = Some Air then chunk_set c tx ty tz Leaves mem
         else mem))"

definition tree_at_mem :: "WorldGenerator \<Rightarrow> int \<Rightarrow> int \<Rightarrow> ChunkObject \<Rightarrow> Memory \<Rightarrow> Memory" where
  "tree_at_mem g lx lz c mem =
     (let wx = obj_cx c * CHUNK_SIZE + lx;
          wz = obj_cz c * CHUNK_SIZE + lz;
          chance = hashRange (treeSeed g) wx wz
      in
      if chance < 992 / 1000 then mem
      else
        (let groundY = findSurface_mem mem c lx lz in
         if groundY < WORLD_SEA_LEVEL + 1 \<or> groundY > WORLD_HEIGHT - 12 then mem
         else if chunk_get mem c lx groundY lz \<noteq> Some Grass then mem
         else
           (let trunkHeight = 4 + \<lfloor>hashRange (treeSeed g XOR 0xaa1) wx wz * 3\<rfloor>;
                trunk = fold (\<lambda>y m. chunk_set c lx (groundY + y) lz Wood m) [1..trunkHeight] mem;
                crownBase = groundY + trunkHeight - 1
            in fold (\<lambda>ox m. fold (\<lambda>oz m. fold (\<lambda>oy m. leaf_at_mem lx lz crownBase ox oz oy c m)
                                          [0..2] m) [-2..2] m) [-2..2] trunk)))"

definition generateTrees_mem :: "WorldGenerator \<Rightarrow> ChunkObject \<Rightarrow> Memory \<Rightarrow> Memory" where
  "generateTrees_mem g c mem =
     fold (\<lambda>lx m. fold (\<lambda>lz m. tree_at_mem g lx lz c m) [2..CHUNK_SIZE - 2 - 1] m)
       [2..CHUNK_SIZE - 2 - 1] mem"

definition generateChunk_mem :: "WorldGenerator \<Rightarrow> int \<Rightarrow> int \<Rightarrow> Memory \<Rightarrow> ChunkObject \<times> Memory" where
  "generateChunk_mem g cx cz mem =
     (case new_ChunkData cx cz mem of
        (c, mem1) \<Rightarrow>
          (let filled = fold (\<lambda>lx m. fold (\<lambda>lz m. fill_column_mem g cx cz lx lz c m)
                                     [0..CHUNK_SIZE - 1] m)
                          [0..CHUNK_SIZE - 1] mem1
           in (c, generateTrees_mem g c filled)))"

text \<open>The block array of a chunk object that a call returned, in the memory it left.\<close>

definition blocks_of :: "ChunkObject \<times> Memory \<Rightarrow> BlockId list" where
  "blocks_of r = snd r ! obj_blocks (fst r)"

section \<open>Client world store and streaming scheduler (world/world.ts)\<close>

text \<open>
  A chunk key is the string \<^verbatim>\<open>`${cx}:${cz}`\<close>. Two integer pairs give the same string
  exactly when they are equal, so the key is the pair itself and \<open>parseChunkKey\<close> reads
  the pair back. The storage key \<^verbatim>\<open>`${seed}:${cx}:${cz}`\<close> is the triple.

  A JavaScript \<^verbatim>\<open>Map\<close> iterates in insertion order: it is an association list where
  \<^verbatim>\<open>set\<close> is \<open>AList.update\<close> (replace in place, or append) and \<^verbatim>\<open>delete\<close> is
  \<open>AList.delete\<close>. A \<^verbatim>\<open>Set\<close> that is never iterated is a finite set.
\<close>

type_synonym ChunkKey = "int \<times> int"
type_synonym StorageKey = "int \<times> int \<times> int"

definition chunkKey :: "int \<Rightarrow> int \<Rightarrow> ChunkKey" where
  "chunkKey cx cz = (cx, cz)"

definition parseChunkKey :: "ChunkKey \<Rightarrow> int \<times> int" where
  "parseChunkKey key = key"

record ChunkState =
  chunk :: ChunkData
  dirty :: bool
  meshDirty :: bool
  lastTouched :: real

record WorldStore =
  ws_generator :: WorldGenerator
  worldKeyPrefix :: int
  chunks :: "(ChunkKey \<times> ChunkState) list"
  loadQueue :: "(int \<times> int) list"
  queuedKeys :: "ChunkKey fset"
  loadingKeys :: "ChunkKey fset"
  maxConcurrentLoads :: nat

definition WorldStore_new :: "WorldGenerator \<Rightarrow> int \<Rightarrow> WorldStore" where
  "WorldStore_new generator seed =
     \<lparr>ws_generator = generator, worldKeyPrefix = seed, chunks = [], loadQueue = [],
      queuedKeys = {||}, loadingKeys = {||}, maxConcurrentLoads = 2\<rparr>"

definition has_chunk :: "(ChunkKey \<times> ChunkState) list \<Rightarrow> ChunkKey \<Rightarrow> bool" where
  "has_chunk m key \<longleftrightarrow> map_of m key \<noteq> None"

text \<open>The candidate of one \<open>(dx, dz)\<close> iteration of \<^verbatim>\<open>queueChunksAround\<close>: nothing when
  the \<^verbatim>\<open>continue\<close> is taken.\<close>

definition queue_candidate :: "WorldStore \<Rightarrow> int \<times> int \<Rightarrow> int \<Rightarrow> int \<Rightarrow> (int \<times> int \<times> int) list" where
  "queue_candidate ws center dx dz =
     (let cx = fst center + dx; cz = snd center + dz; key = chunkKey cx cz in
      if has_chunk (chunks ws) key \<or> key |\<in>| queuedKeys ws \<or> key |\<in>| loadingKeys ws then []
      else [(cx, cz, dx * dx + dz * dz)])"

definition queue_targets :: "WorldStore \<Rightarrow> real \<Rightarrow> real \<Rightarrow> int \<Rightarrow> (int \<times> int \<times> int) list" where
  "queue_targets ws x z radius =
     (let center = worldToChunk x z in
      sort_key (\<lambda>(cx, cz, dist2). dist2)
        (concat (map (\<lambda>dx. concat (map (\<lambda>dz. queue_candidate ws center dx dz) [- radius..radius]))
           [- radius..radius])))"

definition queueChunksAround :: "WorldStore \<Rightarrow> real \<Rightarrow> real \<Rightarrow> int \<Rightarrow> WorldStore" where
  "queueChunksAround ws x z radius =
     fold (\<lambda>(cx, cz, dist2) w.
             w\<lparr>loadQueue := loadQueue w @ [(cx, cz)],
               queuedKeys := finsert (chunkKey cx cz) (queuedKeys w)\<rparr>)
       (queue_targets ws x z radius) ws"

text \<open>
  \<^verbatim>\<open>processLoadQueue\<close> returns the store and the loads it started, in order. A started
  load settles later, never inside the loop, so the loop only adds to \<open>loadingKeys\<close>.
\<close>

function processLoadQueue :: "WorldStore \<Rightarrow> WorldStore \<times> (int \<times> int) list" where
  "processLoadQueue ws =
     (if fcard (loadingKeys ws) < maxConcurrentLoads ws \<and> length (loadQueue ws) > 0 then
        (case loadQueue ws of
           [] \<Rightarrow> (ws, [])
         | next # rest \<Rightarrow>
             (let key = chunkKey (fst next) (snd next);
                  ws1 = ws\<lparr>loadQueue := rest, queuedKeys := queuedKeys ws |-| {|key|}\<rparr>
              in if has_chunk (chunks ws1) key \<or> key |\<in>| loadingKeys ws1 then processLoadQueue ws1
                 else (case processLoadQueue (ws1\<lparr>loadingKeys := finsert key (loadingKeys ws1)\<rparr>) of
                         (ws2, started) \<Rightarrow> (ws2, next # started))))
      else (ws, []))"
  by pat_completeness auto
termination
  by (relation "measure (\<lambda>ws. length (loadQueue ws))") auto

definition markChunkMeshDirty :: "WorldStore \<Rightarrow> int \<Rightarrow> int \<Rightarrow> WorldStore" where
  "markChunkMeshDirty ws cx cz =
     (case map_of (chunks ws) (chunkKey cx cz) of
        None \<Rightarrow> ws
      | Some state \<Rightarrow>
          ws\<lparr>chunks := AList.update (chunkKey cx cz) (state\<lparr>meshDirty := True\<rparr>) (chunks ws)\<rparr>)"

definition storageChunkKey :: "WorldStore \<Rightarrow> int \<Rightarrow> int \<Rightarrow> StorageKey" where
  "storageChunkKey ws cx cz = (worldKeyPrefix ws, cx, cz)"

text \<open>
  The body of \<^verbatim>\<open>loadChunk\<close> after its \<^verbatim>\<open>await\<close>, given what the repository returned,
  followed by the \<^verbatim>\<open>finally\<close> of \<^verbatim>\<open>processLoadQueue\<close>; and the \<^verbatim>\<open>finally\<close> alone
  for a load that failed.
\<close>

definition loadChunk_resolved :: "WorldStore \<Rightarrow> int \<Rightarrow> int \<Rightarrow> BlockId list option \<Rightarrow> real \<Rightarrow> WorldStore" where
  "loadChunk_resolved ws cx cz persisted now =
     (let key = chunkKey cx cz;
          c = (case persisted of
                 Some existing \<Rightarrow> ChunkData_existing cx cz existing
               | None \<Rightarrow> generateChunk (ws_generator ws) cx cz);
          ws1 = ws\<lparr>chunks := AList.update key
                   \<lparr>chunk = c, dirty = False, meshDirty = True, lastTouched = now\<rparr> (chunks ws)\<rparr>;
          ws2 = markChunkMeshDirty ws1 (cx - 1) cz;
          ws3 = markChunkMeshDirty ws2 (cx + 1) cz;
          ws4 = markChunkMeshDirty ws3 cx (cz - 1);
          ws5 = markChunkMeshDirty ws4 cx (cz + 1)
      in ws5\<lparr>loadingKeys := loadingKeys ws5 |-| {|key|}\<rparr>)"

definition loadChunk_rejected :: "WorldStore \<Rightarrow> int \<Rightarrow> int \<Rightarrow> WorldStore" where
  "loadChunk_rejected ws cx cz = ws\<lparr>loadingKeys := loadingKeys ws |-| {|chunkKey cx cz|}\<rparr>"

text \<open>
  The save repository (save/indexeddb.ts), as far as chunks go: \<^verbatim>\<open>getDatabase\<close> throws
  when the database was never opened, and a write can be rejected by IndexedDB; which
  writes are rejected is the environment's choice, \<open>put_fails\<close>.
\<close>

record SaveRepo =
  db_open :: bool
  stored_chunks :: "StorageKey \<rightharpoonup> BlockId list"
  put_fails :: "StorageKey \<Rightarrow> bool"

definition saveChunk :: "SaveRepo \<Rightarrow> StorageKey \<Rightarrow> BlockId list \<Rightarrow> SaveRepo option" where
  "saveChunk repo key blks =
     (if \<not> db_open repo \<or> put_fails repo key then None
      else Some (repo\<lparr>stored_chunks := (stored_chunks repo)(key \<mapsto> blks)\<rparr>))"

datatype StoreEvent = SaveChunk StorageKey "BlockId list" | DeleteChunk ChunkKey

text \<open>
  \<^verbatim>\<open>unloadFarChunks\<close> is an \<^verbatim>\<open>async\<close> method. It runs until it reaches
  \<^verbatim>\<open>await this.saveRepo.saveChunk(...)\<close>: there \<^verbatim>\<open>saveChunk\<close> is called (it copies the
  block array at once, \<^verbatim>\<open>blocks.slice()\<close>), and the method is suspended until the
  promise of the write settles. Whatever the event loop runs in between (a frame of the
  game, with its \<^verbatim>\<open>setBlock\<close> calls, or the settling of a load) sees and changes the
  same store. What the suspended method keeps is its local state:

    \<^item> the iterator of \<^verbatim>\<open>this.chunks.entries()\<close>, as the keys it has yet to yield. The
      iterator of a \<^verbatim>\<open>Map\<close> is live: an entry deleted before it is reached is not
      yielded, and an entry added during the iteration is yielded at the end;
    \<^item> \<^verbatim>\<open>removals\<close>, \<^verbatim>\<open>center\<close> and \<^verbatim>\<open>radius\<close>;
    \<^item> the \<^verbatim>\<open>key\<close> of the entry whose save it awaits, and the arguments of that
      \<^verbatim>\<open>saveChunk\<close> call.
\<close>

record UnloadTask =
  ut_center :: "int \<times> int"
  ut_radius :: int
  ut_entries :: "ChunkKey list"
  ut_removals :: "ChunkKey list"
  ut_key :: ChunkKey
  ut_saving :: "StorageKey \<times> BlockId list"

datatype UnloadStatus = Awaiting UnloadTask | Fulfilled | Rejected

text \<open>
  The first loop of \<^verbatim>\<open>unloadFarChunks\<close> from the entry the iterator yields next, up to
  the next \<^verbatim>\<open>await\<close> (\<open>Inl\<close>, the task to resume) or to the end of the entries (\<open>Inr\<close>,
  the removals). The state of an entry, and so its \<^verbatim>\<open>dirty\<close> flag, is read when the
  entry is yielded.
\<close>

fun unload_scan :: "WorldStore \<Rightarrow> int \<times> int \<Rightarrow> int \<Rightarrow> ChunkKey list \<Rightarrow> ChunkKey list
      \<Rightarrow> UnloadTask + ChunkKey list" where
  "unload_scan ws center radius [] removals = Inr removals"
| "unload_scan ws center radius (key # rest) removals =
     (case map_of (chunks ws) key of
        None \<Rightarrow> unload_scan ws center radius rest removals
      | Some state \<Rightarrow>
          (case parseChunkKey key of (cx, cz) \<Rightarrow>
             (let dx = \<bar>cx - fst center\<bar>; dz = \<bar>cz - snd center\<bar> in
              if dx > radius \<or> dz > radius then
                (if dirty state then
                   Inl \<lparr>ut_center = center, ut_radius = radius, ut_entries = rest,
                        ut_removals = removals, ut_key = key,
                        ut_saving = (storageChunkKey ws cx cz, blocks (chunk state))\<rparr>
                 else unload_scan ws center radius rest (removals @ [key]))
              else unload_scan ws center radius rest removals)))"

text \<open>
  A run of the method up to a point where it gives control back: the store and the
  repository as they are then, the \<^verbatim>\<open>saveChunk\<close> calls and \<^verbatim>\<open>chunks.delete\<close> calls made
  so far, and whether the method is suspended, has returned (its promise is fulfilled)
  or has thrown (its promise is rejected, which the caller's \<^verbatim>\<open>void\<close> ignores).
\<close>

record UnloadRun =
  ur_store :: WorldStore
  ur_repo :: SaveRepo
  ur_trace :: "StoreEvent list"
  ur_status :: UnloadStatus

text \<open>
  What follows a stretch of the first loop: at an \<^verbatim>\<open>await\<close>, the call of \<^verbatim>\<open>saveChunk\<close>
  and the suspension; at the end of the entries, the second loop, which deletes every
  key of \<^verbatim>\<open>removals\<close> and reads no entry again.
\<close>

definition unload_proceed :: "WorldStore \<Rightarrow> SaveRepo \<Rightarrow> StoreEvent list
      \<Rightarrow> UnloadTask + ChunkKey list \<Rightarrow> UnloadRun" where
  "unload_proceed ws repo trace r =
     (case r of
        Inl task \<Rightarrow>
          \<lparr>ur_store = ws, ur_repo = repo,
           ur_trace = trace @ [SaveChunk (fst (ut_saving task)) (snd (ut_saving task))],
           ur_status = Awaiting task\<rparr>
      | Inr removals \<Rightarrow>
          \<lparr>ur_store = ws\<lparr>chunks := fold AList.delete removals (chunks ws)\<rparr>, ur_repo = repo,
           ur_trace = trace @ map DeleteChunk removals, ur_status = Fulfilled\<rparr>)"

text \<open>The call of the method, up to its first \<^verbatim>\<open>await\<close> or to its end.\<close>

definition unloadFarChunks :: "WorldStore \<Rightarrow> SaveRepo \<Rightarrow> real \<Rightarrow> real \<Rightarrow> int \<Rightarrow> UnloadRun" where
  "unloadFarChunks ws repo x z radius =
     unload_proceed ws repo []
       (unload_scan ws (worldToChunk x z) radius (map fst (chunks ws)) [])"

text \<open>
  The method resumed when the write it awaits has settled, in the store and repository
  of that moment: a rejected write throws out of the method, a successful one is
  followed by \<^verbatim>\<open>removals.push(key)\<close> and the rest of the loop.
\<close>

definition unloadFarChunks_resume :: "WorldStore \<Rightarrow> SaveRepo \<Rightarrow> StoreEvent list \<Rightarrow> UnloadTask
      \<Rightarrow> UnloadRun" where
  "unloadFarChunks_resume ws repo trace task =
     (case saveChunk repo (fst (ut_saving task)) (snd (ut_saving task)) of
        None \<Rightarrow> \<lparr>ur_store = ws, ur_repo = repo, ur_trace = trace, ur_status = Rejected\<rparr>
      | Some repo' \<Rightarrow>
          unload_proceed ws repo' trace
            (unload_scan ws (ut_center task) (ut_radius task) (ut_entries task)
               (ut_removals task @ [ut_key task])))"

text \<open>
  A method of the store that runs while \<^verbatim>\<open>unloadFarChunks\<close> is suspended. Every
  method of the store either deletes entries or adds one, so the live iterator drops
  the keys that are gone and gets the new keys at its end.
\<close>

definition while_suspended :: "(WorldStore \<Rightarrow> WorldStore) \<Rightarrow> WorldStore \<Rightarrow> UnloadTask
      \<Rightarrow> WorldStore \<times> UnloadTask" where
  "while_suspended method ws task =
     (let ws' = method ws in
      (ws', task\<lparr>ut_entries :=
                   filter (has_chunk (chunks ws')) (ut_entries task)
                   @ filter (\<lambda>key. \<not> has_chunk (chunks ws) key) (map fst (chunks ws'))\<rparr>))"

definition WorldStore_getBlock :: "WorldStore \<Rightarrow> real \<Rightarrow> int \<Rightarrow> real \<Rightarrow> real \<Rightarrow> BlockId option \<times> WorldStore" where
  "WorldStore_getBlock ws x y z now =
     (if y < 0 \<or> y \<ge> WORLD_HEIGHT then (Some Air, ws)
      else
        (let l = worldToChunkLocal x z; key = chunkKey (loc_cx l) (loc_cz l) in
         case map_of (chunks ws) key of
           None \<Rightarrow> (Some Air, ws)
         | Some state \<Rightarrow>
             (ChunkData_get (chunk state) (loc_lx l) y (loc_lz l),
              ws\<lparr>chunks := AList.update key (state\<lparr>lastTouched := now\<rparr>) (chunks ws)\<rparr>)))"

definition WorldStore_setBlock :: "WorldStore \<Rightarrow> real \<Rightarrow> int \<Rightarrow> real \<Rightarrow> BlockId \<Rightarrow> real \<Rightarrow> bool \<times> WorldStore" where
  "WorldStore_setBlock ws x y z block now =
     (if y < 0 \<or> y \<ge> WORLD_HEIGHT then (False, ws)
      else
        (let l = worldToChunkLocal x z; cx = loc_cx l; cz = loc_cz l; lx = loc_lx l; lz = loc_lz l;
             key = chunkKey cx cz in
         case map_of (chunks ws) key of
           None \<Rightarrow> (False, ws)
         | Some state \<Rightarrow>
             (let oldBlock = ChunkData_get (chunk state) lx y lz in
              if oldBlock = Some block then (False, ws)
              else
                (let state' = state\<lparr>chunk := ChunkData_set (chunk state) lx y lz block,
                                   dirty := True, meshDirty := True, lastTouched := now\<rparr>;
                     ws1 = ws\<lparr>chunks := AList.update key state' (chunks ws)\<rparr>;
                     ws2 = (if lx = 0 then markChunkMeshDirty ws1 (cx - 1) cz
                            else if lx = CHUNK_SIZE - 1 then markChunkMeshDirty ws1 (cx + 1) cz
                            else ws1);
                     ws3 = (if lz = 0 then markChunkMeshDirty ws2 cx (cz - 1)
                            else if lz = CHUNK_SIZE - 1 then markChunkMeshDirty ws2 cx (cz + 1)
                            else ws2)
                 in (True, ws3)))))"

section \<open>Chunk buffers as bytes and base64\<close>

text \<open>
  The bytes of a \<^verbatim>\<open>Uint16Array\<close> buffer, and the array over a byte buffer, on a
  little-endian platform (both the server and the browser view the same buffer through
  typed arrays of the platform's byte order).
\<close>

definition bytes_of_u16s :: "16 word list \<Rightarrow> 8 word list" where
  "bytes_of_u16s ws = concat (map (\<lambda>w. [ucast w, ucast (drop_bit 8 w)]) ws)"

fun u16s_of_bytes :: "8 word list \<Rightarrow> 16 word list" where
  "u16s_of_bytes (lo # hi # rest) = (ucast lo OR push_bit 8 (ucast hi)) # u16s_of_bytes rest"
| "u16s_of_bytes _ = []"

text \<open>
  \<^verbatim>\<open>Buffer.toString("base64")\<close> and \<^verbatim>\<open>atob\<close> are platform functions; they are
  modelled after RFC 4648 and the forgiving-base64 decoder of the HTML standard:
  whitespace is dropped, one or two trailing \<^verbatim>\<open>=\<close> are removed when the length is a
  multiple of four, a length of 1 modulo 4 or a character outside the alphabet fails.
\<close>

definition b64_alphabet :: string where
  "b64_alphabet = ''ABCDEFGHIJKLMNOPQRSTUVWXYZabcdefghijklmnopqrstuvwxyz0123456789+/''"

definition b64_char :: "nat \<Rightarrow> char" where
  "b64_char i = b64_alphabet ! i"

fun index_in :: "'a \<Rightarrow> 'a list \<Rightarrow> nat option" where
  "index_in c [] = None"
| "index_in c (x # xs) = (if x = c then Some 0 else map_option Suc (index_in c xs))"

definition b64_value :: "char \<Rightarrow> nat option" where
  "b64_value c = index_in c b64_alphabet"

fun base64_encode :: "8 word list \<Rightarrow> string" where
  "base64_encode [] = []"
| "base64_encode [a] =
     (let n = unat a * 65536
      in [b64_char (n div 262144), b64_char (n div 4096 mod 64), CHR ''='', CHR ''=''])"
| "base64_encode [a, b] =
     (let n = unat a * 65536 + unat b * 256
      in [b64_char (n div 262144), b64_char (n div 4096 mod 64), b64_char (n div 64 mod 64),
          CHR ''=''])"
| "base64_encode (a # b # c # rest) =
     (let n = unat a * 65536 + unat b * 256 + unat c
      in [b64_char (n div 262144), b64_char (n div 4096 mod 64), b64_char (n div 64 mod 64),
          b64_char (n mod 64)] @ base64_encode rest)"

definition is_ascii_whitespace :: "char \<Rightarrow> bool" where
  "is_ascii_whitespace c \<longleftrightarrow> c \<in> set [CHR 0x09, CHR 0x0A, CHR 0x0C, CHR 0x0D, CHR 0x20]"

definition strip_padding :: "string \<Rightarrow> string" where
  "strip_padding d =
     (if length d \<ge> 2 \<and> last d = CHR ''='' \<and> last (butlast d) = CHR ''='' then butlast (butlast d)
      else if d \<noteq> [] \<and> last d = CHR ''='' then butlast d
      else d)"

fun b64_groups :: "nat list \<Rightarrow> string" where
  "b64_groups (p # q # r # s # rest) =
     (let n = p * 262144 + q * 4096 + r * 64 + s
      in [char_of (n div 65536), char_of (n div 256 mod 256), char_of (n mod 256)] @ b64_groups rest)"
| "b64_groups [p, q, r] =
     (let n = p * 262144 + q * 4096 + r * 64
      in [char_of (n div 65536), char_of (n div 256 mod 256)])"
| "b64_groups [p, q] = (let n = p * 262144 + q * 4096 in [char_of (n div 65536)])"
| "b64_groups _ = []"

definition atob :: "string \<Rightarrow> string option" where
  "atob data =
     (let d1 = filter (\<lambda>c. \<not> is_ascii_whitespace c) data;
          d2 = (if length d1 mod 4 = 0 then strip_padding d1 else d1)
      in if length d2 mod 4 = 1 then None
         else map_option b64_groups (those (map b64_value d2)))"

datatype js_error = TypeError | RangeError | InvalidCharacterError

text \<open>\<^verbatim>\<open>NetworkWorldStore.decodeChunkBase64\<close>: \<^verbatim>\<open>atob\<close> throws on malformed input, and
  a \<^verbatim>\<open>Uint16Array\<close> over a buffer of odd byte length throws a \<^verbatim>\<open>RangeError\<close>.\<close>

definition decodeChunkBase64 :: "string \<Rightarrow> js_error + 16 word list" where
  "decodeChunkBase64 base64 =
     (case atob base64 of
        None \<Rightarrow> Inl InvalidCharacterError
      | Some raw \<Rightarrow>
          (let bytes = map (\<lambda>ch. (of_char ch :: 8 word)) raw
           in if odd (length bytes) then Inl RangeError else Inr (u16s_of_bytes bytes)))"

section \<open>Authoritative world (server/world.ts)\<close>

definition BLOCKS_PER_CHUNK :: int where
  "BLOCKS_PER_CHUNK = CHUNK_SIZE * CHUNK_SIZE * WORLD_HEIGHT"

text \<open>\<open>aw_files\<close> is the content of the chunk files under the room's directory: what
  \<^verbatim>\<open>fs.existsSync\<close> and \<^verbatim>\<open>fs.readFileSync\<close> see for \<^verbatim>\<open>`${cx}_${cz}.bin`\<close>.\<close>

record AuthoritativeWorld =
  aw_generator :: WorldGenerator
  aw_chunks :: "ChunkKey \<rightharpoonup> ChunkData"
  aw_dirty :: "ChunkKey fset"
  aw_files :: "ChunkKey \<rightharpoonup> 8 word list"

definition getChunk :: "AuthoritativeWorld \<Rightarrow> int \<Rightarrow> int \<Rightarrow> ChunkData \<times> AuthoritativeWorld" where
  "getChunk w cx cz =
     (let key = chunkKey cx cz in
      case aw_chunks w key of
        Some cached \<Rightarrow> (cached, w)
      | None \<Rightarrow>
          (let c = (case aw_files w key of
                      Some raw \<Rightarrow>
                        if real (length raw) / 2 = of_int BLOCKS_PER_CHUNK
                        then ChunkData_existing cx cz (u16s_of_bytes raw)
                        else generateChunk (aw_generator w) cx cz
                    | None \<Rightarrow> generateChunk (aw_generator w) cx cz)
           in (c, w\<lparr>aw_chunks := (aw_chunks w)(key \<mapsto> c)\<rparr>)))"

definition AW_getBlock :: "AuthoritativeWorld \<Rightarrow> real \<Rightarrow> int \<Rightarrow> real \<Rightarrow> BlockId option \<times> AuthoritativeWorld" where
  "AW_getBlock w x y z =
     (if y < 0 \<or> y \<ge> WORLD_HEIGHT then (Some Air, w)
      else
        (let fx = \<lfloor>x\<rfloor>; fz = \<lfloor>z\<rfloor>;
             cx = \<lfloor>real_of_int fx / real_of_int CHUNK_SIZE\<rfloor>;
             cz = \<lfloor>real_of_int fz / real_of_int CHUNK_SIZE\<rfloor>;
             lx = mod_js fx CHUNK_SIZE; lz = mod_js fz CHUNK_SIZE
         in case getChunk w cx cz of (c, w') \<Rightarrow> (ChunkData_get c lx y lz, w')))"

definition AW_setBlock :: "AuthoritativeWorld \<Rightarrow> real \<Rightarrow> int \<Rightarrow> real \<Rightarrow> BlockId \<Rightarrow> bool \<times> AuthoritativeWorld" where
  "AW_setBlock w x y z block =
     (if y < 0 \<or> y \<ge> WORLD_HEIGHT then (False, w)
      else
        (let fx = \<lfloor>x\<rfloor>; fz = \<lfloor>z\<rfloor>;
             cx = \<lfloor>real_of_int fx / real_of_int CHUNK_SIZE\<rfloor>;
             cz = \<lfloor>real_of_int fz / real_of_int CHUNK_SIZE\<rfloor>;
             lx = mod_js fx CHUNK_SIZE; lz = mod_js fz CHUNK_SIZE;
             key = chunkKey cx cz
         in case getChunk w cx cz of (c, w') \<Rightarrow>
              (let old = ChunkData_get c lx y lz in
               if old = Some block then (False, w')
               else (True, w'\<lparr>aw_chunks := (aw_chunks w')(key \<mapsto> ChunkData_set c lx y lz block),
                               aw_dirty := finsert key (aw_dirty w')\<rparr>))))"

definition encodeChunkBase64 :: "AuthoritativeWorld \<Rightarrow> int \<Rightarrow> int \<Rightarrow> string \<times> AuthoritativeWorld" where
  "encodeChunkBase64 w cx cz =
     (case getChunk w cx cz of (c, w') \<Rightarrow> (base64_encode (bytes_of_u16s (blocks c)), w'))"

section \<open>Items, inventories and block properties\<close>

datatype SharedItemId = grass_block | dirt | stone | wood | leaves | sand | plank | stick | pickaxe

record SharedItemStack =
  stack_item :: SharedItemId
  stack_count :: int

text \<open>
  \<^verbatim>\<open>ServerInventory\<close> (server/inventory.ts) and the client's \<^verbatim>\<open>Inventory\<close>
  (game/inventory.ts) hold the same two fields. A hotbar slot is a stack or
  \<^verbatim>\<open>null\<close>; reading an array past its end gives \<^verbatim>\<open>undefined\<close>, which the code
  tests like \<^verbatim>\<open>null\<close>, and writing past its end extends the array.
\<close>

record Inventory =
  inv_hotbar :: "SharedItemStack option list"
  inv_selectedSlot :: int

definition js_index :: "'a option list \<Rightarrow> int \<Rightarrow> 'a option" where
  "js_index xs i = (if 0 \<le> i \<and> nat i < length xs then xs ! nat i else None)"

definition js_assign :: "'a option list \<Rightarrow> int \<Rightarrow> 'a option \<Rightarrow> 'a option list" where
  "js_assign xs i v =
     (if i < 0 then xs
      else if nat i < length xs then xs[nat i := v]
      else xs @ replicate (nat i - length xs) None @ [v])"

definition createStarterInventory :: Inventory where
  "createStarterInventory =
     \<lparr>inv_hotbar =
        [Some \<lparr>stack_item = grass_block, stack_count = 32\<rparr>,
         Some \<lparr>stack_item = dirt, stack_count = 32\<rparr>,
         Some \<lparr>stack_item = stone, stack_count = 32\<rparr>,
         Some \<lparr>stack_item = wood, stack_count = 16\<rparr>,
         Some \<lparr>stack_item = sand, stack_count = 16\<rparr>,
         None, None, None, None],
      inv_selectedSlot = 0\<rparr>"

text \<open>The first loop of \<^verbatim>\<open>addItem\<close>, over the slots in order: the slots, what remains
  to add, and whether the loop returned.\<close>

fun add_to_stacks :: "SharedItemId \<Rightarrow> int \<Rightarrow> SharedItemStack option list
      \<Rightarrow> SharedItemStack option list \<times> int \<times> bool" where
  "add_to_stacks it remaining [] = ([], remaining, False)"
| "add_to_stacks it remaining (None # rest) =
     (case add_to_stacks it remaining rest of (r, n, d) \<Rightarrow> (None # r, n, d))"
| "add_to_stacks it remaining (Some slot # rest) =
     (if stack_item slot \<noteq> it \<or> stack_count slot \<ge> MAX_STACK then
        (case add_to_stacks it remaining rest of (r, n, d) \<Rightarrow> (Some slot # r, n, d))
      else
        (let canTake = min (MAX_STACK - stack_count slot) remaining;
             slot' = slot\<lparr>stack_count := stack_count slot + canTake\<rparr>;
             remaining' = remaining - canTake
         in if remaining' = 0 then (Some slot' # rest, 0, True)
            else (case add_to_stacks it remaining' rest of (r, n, d) \<Rightarrow> (Some slot' # r, n, d))))"

text \<open>The second loop of \<^verbatim>\<open>addItem\<close>, from slot \<open>i\<close> up to \<open>HOTBAR_SIZE\<close>.\<close>

function add_to_empty :: "SharedItemId \<Rightarrow> int \<Rightarrow> int \<Rightarrow> SharedItemStack option list
      \<Rightarrow> SharedItemStack option list \<times> int" where
  "add_to_empty it remaining i hb =
     (if i < HOTBAR_SIZE then
        (if js_index hb i \<noteq> None then add_to_empty it remaining (i + 1) hb
         else
           (let added = min MAX_STACK remaining;
                hb' = js_assign hb i (Some \<lparr>stack_item = it, stack_count = added\<rparr>);
                remaining' = remaining - added
            in if remaining' = 0 then (hb', 0)
               else add_to_empty it remaining' (i + 1) hb'))
      else (hb, remaining))"
  by pat_completeness auto
termination
  by (relation "measure (\<lambda>(it, remaining, i, hb). nat (HOTBAR_SIZE - i))") auto

definition addItem :: "Inventory \<Rightarrow> SharedItemId \<Rightarrow> int \<Rightarrow> int \<times> Inventory" where
  "addItem inventory it n =
     (case add_to_stacks it n (inv_hotbar inventory) of
        (hb, remaining, returned) \<Rightarrow>
          if returned then (0, inventory\<lparr>inv_hotbar := hb\<rparr>)
          else (case add_to_empty it remaining 0 hb of
                  (hb', remaining') \<Rightarrow> (remaining', inventory\<lparr>inv_hotbar := hb'\<rparr>)))"


record BlockDefinition =
  def_solid :: bool
  def_hardness :: real
  def_drop :: "SharedItemId option"

text \<open>\<^verbatim>\<open>BLOCK_DEFS\<close> (blocks.ts), indexed by the number found in a cell; a number that
  is no block id has no entry.\<close>

definition BLOCK_DEFS :: "BlockId \<Rightarrow> BlockDefinition option" where
  "BLOCK_DEFS b =
     (if b = Air then Some \<lparr>def_solid = False, def_hardness = 0, def_drop = None\<rparr>
      else if b = Grass then Some \<lparr>def_solid = True, def_hardness = 12 / 10, def_drop = Some grass_block\<rparr>
      else if b = Dirt then Some \<lparr>def_solid = True, def_hardness = 1, def_drop = Some dirt\<rparr>
      else if b = Stone then Some \<lparr>def_solid = True, def_hardness = 22 / 10, def_drop = Some stone\<rparr>
      else if b = Wood then Some \<lparr>def_solid = True, def_hardness = 16 / 10, def_drop = Some wood\<rparr>
      else if b = Leaves then Some \<lparr>def_solid = True, def_hardness = 4 / 10, def_drop = Some leaves\<rparr>
      else if b = Sand then Some \<lparr>def_solid = True, def_hardness = 9 / 10, def_drop = Some sand\<rparr>
      else if b = Water then Some \<lparr>def_solid = False, def_hardness = 0, def_drop = None\<rparr>
      else None)"


section \<open>Room server: mining and placing (server/room.ts)\<close>

record Vec3 =
  vec_x :: real
  vec_y :: real
  vec_z :: real

definition distanceSquared :: "Vec3 \<Rightarrow> Vec3 \<Rightarrow> real" where
  "distanceSquared a b =
     (let dx = vec_x a - vec_x b; dy = vec_y a - vec_y b; dz = vec_z a - vec_z b
      in dx * dx + dy * dy + dz * dz)"


text \<open>The fields of \<^verbatim>\<open>PendingInput\<close> (client) and \<^verbatim>\<open>PlayerControl\<close> (server).\<close>

record PendingInput =
  in_seq :: int
  in_dt :: real
  in_moveX :: real
  in_moveZ :: real
  in_jump :: bool
  in_sprint :: bool
  in_yaw :: real
  in_pitch :: real

text \<open>\<open>sp_ws_open\<close> is \<^verbatim>\<open>ws.readyState === WebSocket.OPEN\<close> of the player's socket.\<close>

record ServerPlayer =
  sp_id :: string
  sp_ws_open :: bool
  sp_nickname :: string
  sp_position :: Vec3
  sp_velocity :: Vec3
  sp_yaw :: real
  sp_pitch :: real
  sp_health :: real
  sp_onGround :: bool
  sp_inventory :: Inventory
  sp_knownChunks :: "ChunkKey fset"
  sp_control :: PendingInput
  lastMineAtMs :: int
  lastAttackAtMs :: int
  sp_lastProcessedSeq :: int

record BlockDelta =
  bd_x :: int
  bd_y :: int
  bd_z :: int
  bd_block :: BlockId

text \<open>The part of \<^verbatim>\<open>RoomServer\<close> that mining and placing read and write: the world
  and the buffer of block deltas for the next snapshot.\<close>

record Room =
  room_world :: AuthoritativeWorld
  changedBlocks :: "BlockDelta list"

datatype ServerMessage = inventory_update "SharedItemStack option list" int

text \<open>What \<^verbatim>\<open>sendRaw\<close> puts on the socket: nothing unless the socket is open.\<close>

definition send :: "ServerPlayer \<Rightarrow> ServerMessage \<Rightarrow> ServerMessage list" where
  "send player message = (if \<not> sp_ws_open player then [] else [message])"

definition sendInventory :: "ServerPlayer \<Rightarrow> ServerMessage list" where
  "sendInventory player =
     send player (inventory_update (inv_hotbar (sp_inventory player))
                    (inv_selectedSlot (sp_inventory player)))"

definition withinReach :: "ServerPlayer \<Rightarrow> int \<Rightarrow> int \<Rightarrow> int \<Rightarrow> real \<Rightarrow> bool" where
  "withinReach player x y z reach =
     (let eye = \<lparr>vec_x = vec_x (sp_position player),
                 vec_y = vec_y (sp_position player) + PLAYER_EYE_HEIGHT,
                 vec_z = vec_z (sp_position player)\<rparr>;
          center = \<lparr>vec_x = of_int x + 1 / 2, vec_y = of_int y + 1 / 2, vec_z = of_int z + 1 / 2\<rparr>
      in distanceSquared eye center \<le> reach * reach)"

text \<open>
  \<^verbatim>\<open>handleMineAction\<close>, with \<open>now\<close> the value of \<^verbatim>\<open>Date.now()\<close>. The result is
  the room, the player and the messages sent; \<open>Inl TypeError\<close> is the exception of
  \<^verbatim>\<open>BLOCK_DEFS[block].hardness\<close> when the cell holds no block id.
\<close>

definition handleMineAction :: "Room \<Rightarrow> ServerPlayer \<Rightarrow> real \<Rightarrow> real \<Rightarrow> real \<Rightarrow> int
      \<Rightarrow> js_error + (Room \<times> ServerPlayer \<times> ServerMessage list)" where
  "handleMineAction room player x y z now =
     (let bx = \<lfloor>x\<rfloor>; bY = \<lfloor>y\<rfloor>; bz = \<lfloor>z\<rfloor> in
      if \<not> withinReach player bx bY bz (62 / 10) then Inr (room, player, [])
      else
        (case AW_getBlock (room_world room) (of_int bx) bY (of_int bz) of (block, w1) \<Rightarrow>
           (let room1 = room\<lparr>room_world := w1\<rparr> in
            if block = Some Air \<or> block = Some Water then Inr (room1, player, [])
            else
              (case Option.bind block BLOCK_DEFS of
                 None \<Rightarrow> Inl TypeError
               | Some d \<Rightarrow>
                   (let hardness = max (2 / 10) (def_hardness d);
                        minIntervalMs = hardness * 180
                    in if of_int (now - lastMineAtMs player) < minIntervalMs
                       then Inr (room1, player, [])
                       else
                         (case AW_setBlock w1 (of_int bx) bY (of_int bz) Air of (ok, w2) \<Rightarrow>
                            if ok then
                              (let player1 = player\<lparr>lastMineAtMs := now\<rparr>;
                                   room2 = room1\<lparr>room_world := w2,
                                     changedBlocks := changedBlocks room1
                                       @ [\<lparr>bd_x = bx, bd_y = bY, bd_z = bz, bd_block = Air\<rparr>]\<rparr>
                               in case def_drop d of
                                    None \<Rightarrow> Inr (room2, player1, [])
                                  | Some dropped \<Rightarrow>
                                      (let player2 = player1\<lparr>sp_inventory :=
                                             snd (addItem (sp_inventory player1) dropped 1)\<rparr>
                                       in Inr (room2, player2, sendInventory player2)))
                            else Inr (room1\<lparr>room_world := w2\<rparr>, player, [])))))))"


section \<open>Client reconciliation (game/multiplayerGame.ts)\<close>

record PlayerController =
  pc_position :: Vec3
  pc_velocity :: Vec3
  pc_yaw :: real
  pc_pitch :: real
  pc_health :: real
  pc_onGround :: bool

record NetPlayerState =
  ns_id :: string
  ns_nickname :: string
  ns_x :: real
  ns_y :: real
  ns_z :: real
  ns_vx :: real
  ns_vy :: real
  ns_vz :: real
  ns_yaw :: real
  ns_pitch :: real
  ns_health :: real
  ns_selectedSlot :: int
  ns_hotbar :: "SharedItemStack option list"
  ns_lastProcessedSeq :: "int option"

text \<open>The fields of \<^verbatim>\<open>MultiplayerGame\<close> that reconciliation and input buffering touch.\<close>

record MultiplayerGame =
  mg_player :: PlayerController
  mg_inventory :: Inventory
  pendingInputs :: "PendingInput list"
  inputSeq :: int
  localPlayerId :: string

text \<open>\<^verbatim>\<open>new Inventory(initial)\<close>: nine empty slots, then the first nine entries of
  \<open>initial\<close> copied over them.\<close>

definition Inventory_new :: "SharedItemStack option list \<Rightarrow> Inventory" where
  "Inventory_new initial =
     \<lparr>inv_hotbar = take (nat HOTBAR_SIZE) initial
                     @ replicate (nat HOTBAR_SIZE - length initial) None,
      inv_selectedSlot = 0\<rparr>"

definition setSelected :: "Inventory \<Rightarrow> int \<Rightarrow> Inventory" where
  "setSelected inventory i =
     inventory\<lparr>inv_selectedSlot := js_rem (js_rem i HOTBAR_SIZE + HOTBAR_SIZE) HOTBAR_SIZE\<rparr>"

text \<open>\<^verbatim>\<open>Vector3.distanceTo\<close> and \<^verbatim>\<open>Vector3.lerp\<close> of three.js.\<close>

definition distanceTo :: "Vec3 \<Rightarrow> Vec3 \<Rightarrow> real" where
  "distanceTo a b = sqrt (distanceSquared a b)"

definition Vec3_lerp :: "Vec3 \<Rightarrow> Vec3 \<Rightarrow> real \<Rightarrow> Vec3" where
  "Vec3_lerp a b alpha =
     \<lparr>vec_x = vec_x a + (vec_x b - vec_x a) * alpha,
      vec_y = vec_y a + (vec_y b - vec_y a) * alpha,
      vec_z = vec_z a + (vec_z b - vec_z a) * alpha\<rparr>"

definition applyLocalReconciliation :: "MultiplayerGame \<Rightarrow> NetPlayerState \<Rightarrow> MultiplayerGame" where
  "applyLocalReconciliation g state =
     (let authPos = \<lparr>vec_x = ns_x state, vec_y = ns_y state, vec_z = ns_z state\<rparr>;
          dist = distanceTo authPos (pc_position (mg_player g));
          position = (if dist > 25 / 10 then authPos
                      else if dist > 15 / 100 then Vec3_lerp (pc_position (mg_player g)) authPos (35 / 100)
                      else pc_position (mg_player g));
          p = (mg_player g)\<lparr>pc_position := position,
                 pc_velocity := \<lparr>vec_x = ns_vx state, vec_y = ns_vy state, vec_z = ns_vz state\<rparr>,
                 pc_health := ns_health state, pc_yaw := ns_yaw state, pc_pitch := ns_pitch state\<rparr>;
          inventory = setSelected (Inventory_new (ns_hotbar state)) (ns_selectedSlot state);
          pending = (case ns_lastProcessedSeq state of
                       None \<Rightarrow> pendingInputs g
                     | Some acked \<Rightarrow> dropWhile (\<lambda>i. in_seq i \<le> acked) (pendingInputs g))
      in g\<lparr>mg_player := p, mg_inventory := inventory, pendingInputs := pending\<rparr>)"

text \<open>
  The input buffering of \<^verbatim>\<open>updateFixed\<close>: \<^verbatim>\<open>captureMovementInput\<close> numbers the input
  with the incremented \<open>inputSeq\<close>, the input is pushed, and the oldest entry is dropped
  once more than 120 are buffered. \<open>input\<close> carries the captured controls; its
  sequence number is overwritten.
\<close>

definition bufferInput :: "MultiplayerGame \<Rightarrow> PendingInput \<Rightarrow> MultiplayerGame" where
  "bufferInput g input =
     (let sq = inputSeq g + 1;
          pending = pendingInputs g @ [input\<lparr>in_seq := sq\<rparr>]
      in g\<lparr>inputSeq := sq,
           pendingInputs := (if length pending > 120 then tl pending else pending)\<rparr>)"

text \<open>
  The states of the client as far as the input buffer goes: a fresh game, an input
  buffered by a tick, a snapshot reconciled, and any change to the player or the
  inventory by the rest of the tick.
\<close>

inductive client_reachable :: "MultiplayerGame \<Rightarrow> bool" where
  c_new: "client_reachable \<lparr>mg_player = p, mg_inventory = i, pendingInputs = [], inputSeq = 0,
            localPlayerId = n\<rparr>"
| c_input: "client_reachable g \<Longrightarrow> client_reachable (bufferInput g input)"
| c_reconcile: "client_reachable g \<Longrightarrow> client_reachable (applyLocalReconciliation g state)"
| c_other: "client_reachable g \<Longrightarrow>
     client_reachable (g\<lparr>mg_player := p, mg_inventory := i, localPlayerId := n\<rparr>)"

section \<open>Definitions used in the proofs\<close>

subsection \<open>The shape of an encoding\<close>

text \<open>The 6-bit values of the encoding, without the alphabet and the padding.\<close>

fun enc_vals :: "8 word list \<Rightarrow> nat list" where
  "enc_vals [] = []"
| "enc_vals [a] = (let n = unat a * 65536 in [n div 262144, n div 4096 mod 64])"
| "enc_vals [a, b] =
     (let n = unat a * 65536 + unat b * 256 in [n div 262144, n div 4096 mod 64, n div 64 mod 64])"
| "enc_vals (a # b # c # rest) =
     (let n = unat a * 65536 + unat b * 256 + unat c
      in [n div 262144, n div 4096 mod 64, n div 64 mod 64, n mod 64] @ enc_vals rest)"

text \<open>The padding that follows them.\<close>

fun enc_padding :: "8 word list \<Rightarrow> string" where
  "enc_padding [] = []"
| "enc_padding [a] = ''==''"
| "enc_padding [a, b] = ''=''"
| "enc_padding (a # b # c # rest) = enc_padding rest"

text \<open>
  The first loop of \<^verbatim>\<open>flushDirtyChunks\<close> over the entries of the map; a rejected save
  ends the loop with the entries flushed so far.
\<close>

fun flush_scan :: "WorldStore \<Rightarrow> (ChunkKey \<times> ChunkState) list \<Rightarrow> SaveRepo
      \<Rightarrow> (ChunkKey \<times> ChunkState) list \<times> SaveRepo" where
  "flush_scan ws [] repo = ([], repo)"
| "flush_scan ws ((key, state) # rest) repo =
     (if \<not> dirty state then
        (case flush_scan ws rest repo of (rest', repo') \<Rightarrow> ((key, state) # rest', repo'))
      else
        (case parseChunkKey key of (cx, cz) \<Rightarrow>
           (case saveChunk repo (storageChunkKey ws cx cz) (blocks (chunk state)) of
              None \<Rightarrow> ((key, state) # rest, repo)
            | Some repo' \<Rightarrow>
                (case flush_scan ws rest repo' of
                   (rest', repo'') \<Rightarrow> ((key, state\<lparr>dirty := False\<rparr>) # rest', repo'')))))"

definition flushDirtyChunks :: "WorldStore \<Rightarrow> SaveRepo \<Rightarrow> WorldStore \<times> SaveRepo" where
  "flushDirtyChunks ws repo =
     (case flush_scan ws (chunks ws) repo of (cs, repo') \<Rightarrow> (ws\<lparr>chunks := cs\<rparr>, repo'))"

definition saveChunkIfDirty :: "WorldStore \<Rightarrow> SaveRepo \<Rightarrow> int \<Rightarrow> int \<Rightarrow> WorldStore \<times> SaveRepo" where
  "saveChunkIfDirty ws repo cx cz =
     (let key = chunkKey cx cz in
      case map_of (chunks ws) key of
        None \<Rightarrow> (ws, repo)
      | Some state \<Rightarrow>
          if \<not> dirty state then (ws, repo)
          else
            (case saveChunk repo (storageChunkKey ws cx cz) (blocks (chunk state)) of
               None \<Rightarrow> (ws, repo)
             | Some repo' \<Rightarrow>
                 (ws\<lparr>chunks := AList.update key (state\<lparr>dirty := False\<rparr>) (chunks ws)\<rparr>, repo')))"

subsection \<open>Memory and values\<close>

text \<open>The chunk value that a chunk object stands for in a memory.\<close>

definition view :: "Memory \<Rightarrow> ChunkObject \<Rightarrow> ChunkData" where
  "view mem c = \<lparr>cd_cx = obj_cx c, cd_cz = obj_cz c, blocks = mem ! obj_blocks c\<rparr>"

text \<open>
  An operation on memory carries out an operation on chunk values: it replaces the
  array of the chunk object by the blocks of the result and writes nowhere else, and the
  operation on values keeps the coordinates.
\<close>

definition simulates :: "(ChunkObject \<Rightarrow> Memory \<Rightarrow> Memory) \<Rightarrow> (ChunkData \<Rightarrow> ChunkData) \<Rightarrow> bool" where
  "simulates fm f \<longleftrightarrow>
     (\<forall>c mem. obj_blocks c < length mem \<longrightarrow> fm c mem = mem[obj_blocks c := blocks (f (view mem c))])
     \<and> (\<forall>ch. cd_cx (f ch) = cd_cx ch \<and> cd_cz (f ch) = cd_cz ch)"

subsection \<open>The scheduler as a transition system\<close>

text \<open>
  The coordinates \<^verbatim>\<open>queueChunksAround\<close> pushes onto the load queue, in order.
\<close>

definition enqueued :: "WorldStore \<Rightarrow> real \<Rightarrow> real \<Rightarrow> int \<Rightarrow> (int \<times> int) list" where
  "enqueued ws x z radius = map (\<lambda>(cx, cz, dist2). (cx, cz)) (queue_targets ws x z radius)"

text \<open>
  The states a store goes through, from construction, under its public methods and the
  settling of loads. The second component lists the loads in flight: those that
  \<^verbatim>\<open>processLoadQueue\<close> started and that have not settled. A load settles by resolving
  (the chunk is stored) or by rejecting; either way the \<^verbatim>\<open>finally\<close> handler runs.
  Each method is one step: the event loop runs a synchronous method to its end.
  \<^verbatim>\<open>unloadFarChunks\<close> has a step for its call and a step for each time it is resumed,
  with whatever task it is resumed with. The asynchronous \<^verbatim>\<open>flushDirtyChunks\<close> and
  \<^verbatim>\<open>saveChunkIfDirty\<close> have a step each for a run without interleaving; when they
  are suspended at an \<^verbatim>\<open>await\<close> while other methods run, all they write afterwards
  is the map of chunks (dirty flags cleared), which the last step covers by changing
  that map in any way.
\<close>

inductive reachable :: "WorldStore \<Rightarrow> (int \<times> int) list \<Rightarrow> bool" where
  r_new: "reachable (WorldStore_new generator seed) []"
| r_queue: "reachable ws inflight \<Longrightarrow> reachable (queueChunksAround ws x z radius) inflight"
| r_process: "reachable ws inflight \<Longrightarrow>
     reachable (fst (processLoadQueue ws)) (inflight @ snd (processLoadQueue ws))"
| r_resolved: "reachable ws inflight \<Longrightarrow> (cx, cz) \<in> set inflight \<Longrightarrow>
     reachable (loadChunk_resolved ws cx cz persisted now) (remove1 (cx, cz) inflight)"
| r_rejected: "reachable ws inflight \<Longrightarrow> (cx, cz) \<in> set inflight \<Longrightarrow>
     reachable (loadChunk_rejected ws cx cz) (remove1 (cx, cz) inflight)"
| r_unload: "reachable ws inflight \<Longrightarrow>
     reachable (ur_store (unloadFarChunks ws repo x z radius)) inflight"
| r_unload_resume: "reachable ws inflight \<Longrightarrow>
     reachable (ur_store (unloadFarChunks_resume ws repo trace task)) inflight"
| r_flush: "reachable ws inflight \<Longrightarrow> reachable (fst (flushDirtyChunks ws repo)) inflight"
| r_save: "reachable ws inflight \<Longrightarrow> reachable (fst (saveChunkIfDirty ws repo cx cz)) inflight"
| r_getBlock: "reachable ws inflight \<Longrightarrow>
     reachable (snd (WorldStore_getBlock ws x y z now)) inflight"
| r_setBlock: "reachable ws inflight \<Longrightarrow>
     reachable (snd (WorldStore_setBlock ws x y z block now)) inflight"
| r_interleaved: "reachable ws inflight \<Longrightarrow> reachable (ws\<lparr>chunks := cs\<rparr>) inflight"

definition sched_inv :: "WorldStore \<Rightarrow> (int \<times> int) list \<Rightarrow> bool" where
  "sched_inv ws inflight \<longleftrightarrow>
     maxConcurrentLoads ws = 2 \<and> distinct (loadQueue ws) \<and>
     fset (queuedKeys ws) = set (loadQueue ws) \<and>
     distinct inflight \<and> fset (loadingKeys ws) = set inflight \<and> length inflight \<le> 2"

text \<open>The coordinate pair of a queue target.\<close>

definition proj :: "int \<times> int \<times> int \<Rightarrow> int \<times> int" where
  "proj = (\<lambda>(cx, cz, dist2). (cx, cz))"

text \<open>A store that has queued the nine chunks around the origin.\<close>

definition example_store :: WorldStore where
  "example_store = queueChunksAround (WorldStore_new (WorldGenerator_new 42) 42) 0 0 1"

text \<open>A store holding a clean chunk at the origin and a dirty chunk at (50, 50), and a
  repository that accepts every write.\<close>

definition example_dirty_store :: WorldStore where
  "example_dirty_store = (WorldStore_new (WorldGenerator_new 42) 42)
     \<lparr>chunks :=
        [((0, 0), \<lparr>chunk = ChunkData_existing 0 0 [Stone, Grass], dirty = False,
                   meshDirty = False, lastTouched = 0\<rparr>),
         ((50, 50), \<lparr>chunk = ChunkData_existing 50 50 [Dirt, Stone], dirty = True,
                     meshDirty = False, lastTouched = 0\<rparr>)]\<rparr>"

text \<open>
  A store holding two chunks beside the origin, both of full size: (0, 0), which has a
  stone block in its first cell and no unsaved edit, and (0, 1), which has an unsaved
  edit.
\<close>

definition example_far_store :: WorldStore where
  "example_far_store = (WorldStore_new (WorldGenerator_new 42) 42)
     \<lparr>chunks :=
        [((0, 0), \<lparr>chunk = ChunkData_existing 0 0 ((replicate 24576 Air)[0 := Stone]),
                   dirty = False, meshDirty = False, lastTouched = 0\<rparr>),
         ((0, 1), \<lparr>chunk = ChunkData_existing 0 1 ((replicate 24576 Air)[0 := Dirt]),
                   dirty = True, meshDirty = False, lastTouched = 0\<rparr>)]\<rparr>"

definition example_repo :: SaveRepo where
  "example_repo = \<lparr>db_open = True, stored_chunks = Map.empty, put_fails = (\<lambda>key. False)\<rparr>"

text \<open>
  \<^verbatim>\<open>unloadFarChunks(208, 0)\<close> on that store, thirteen chunks away, with the default
  radius 12; the task it is suspended with; the store and the task after
  \<^verbatim>\<open>setBlock(0, 0, 0, BlockId.Air)\<close> has run during the suspension; and the method
  resumed after the write has succeeded.
\<close>

definition example_unload_call :: UnloadRun where
  "example_unload_call = unloadFarChunks example_far_store example_repo 208 0 (VIEW_DISTANCE_CHUNKS + 2)"

definition example_unload_task :: UnloadTask where
  "example_unload_task =
     \<lparr>ut_center = (13, 0), ut_radius = 12, ut_entries = [], ut_removals = [(0, 0)],
      ut_key = (0, 1), ut_saving = ((42, 0, 1), (replicate 24576 Air)[0 := Dirt])\<rparr>"

definition example_unload_edit :: "WorldStore \<times> UnloadTask" where
  "example_unload_edit =
     while_suspended (\<lambda>ws. snd (WorldStore_setBlock ws 0 0 0 Air 1))
       (ur_store example_unload_call) example_unload_task"

definition example_unload_end :: UnloadRun where
  "example_unload_end =
     unloadFarChunks_resume (fst example_unload_edit) (ur_repo example_unload_call)
       (ur_trace example_unload_call) (snd example_unload_edit)"

text \<open>A server world that has the chunk at the origin cached, a stone block at its
  first cell.\<close>

definition example_world :: AuthoritativeWorld where
  "example_world =
     \<lparr>aw_generator = WorldGenerator_new 42,
      aw_chunks = [(0, 0) \<mapsto> ChunkData_existing 0 0 ((replicate 24576 Air)[0 := Stone])],
      aw_dirty = {||}, aw_files = Map.empty\<rparr>"

text \<open>A room over \<open>example_world\<close> and a player standing on the stone block at the
  origin, with the starter inventory.\<close>

definition example_room :: Room where
  "example_room = \<lparr>room_world = example_world, changedBlocks = []\<rparr>"

definition example_player :: ServerPlayer where
  "example_player =
     \<lparr>sp_id = ''p0'', sp_ws_open = True, sp_nickname = ''steve'',
      sp_position = \<lparr>vec_x = 1 / 2, vec_y = 1, vec_z = 1 / 2\<rparr>,
      sp_velocity = \<lparr>vec_x = 0, vec_y = 0, vec_z = 0\<rparr>,
      sp_yaw = 0, sp_pitch = 0, sp_health = 20, sp_onGround = True,
      sp_inventory = createStarterInventory, sp_knownChunks = {||},
      sp_control = \<lparr>in_seq = 0, in_dt = 1 / 20, in_moveX = 0, in_moveZ = 0, in_jump = False,
                    in_sprint = False, in_yaw = 0, in_pitch = 0\<rparr>,
      lastMineAtMs = 0, lastAttackAtMs = 0, sp_lastProcessedSeq = 0\<rparr>"

text \<open>The room and the player after the player has mined that block at time 1000.\<close>

definition example_room_mined :: Room where
  "example_room_mined =
     \<lparr>room_world =
        \<lparr>aw_generator = WorldGenerator_new 42,
         aw_chunks = [(0, 0) \<mapsto> \<lparr>cd_cx = 0, cd_cz = 0, blocks = (replicate 24576 Air)[0 := Air]\<rparr>],
         aw_dirty = {|(0, 0)|}, aw_files = Map.empty\<rparr>,
      changedBlocks = [\<lparr>bd_x = 0, bd_y = 0, bd_z = 0, bd_block = Air\<rparr>]\<rparr>"

definition example_player_mined :: ServerPlayer where
  "example_player_mined =
     example_player
       \<lparr>sp_inventory :=
          \<lparr>inv_hotbar =
             [Some \<lparr>stack_item = grass_block, stack_count = 32\<rparr>,
              Some \<lparr>stack_item = dirt, stack_count = 32\<rparr>,
              Some \<lparr>stack_item = stone, stack_count = 33\<rparr>,
              Some \<lparr>stack_item = wood, stack_count = 16\<rparr>,
              Some \<lparr>stack_item = sand, stack_count = 16\<rparr>,
              None, None, None, None],
           inv_selectedSlot = 0\<rparr>,
        lastMineAtMs := 1000\<rparr>"

text \<open>The buffer of pending inputs is numbered in strictly increasing order, up to
  \<open>inputSeq\<close>.\<close>

definition pending_inv :: "MultiplayerGame \<Rightarrow> bool" where
  "pending_inv g \<longleftrightarrow> sorted_wrt (<) (map in_seq (pendingInputs g))
     \<and> (\<forall>i \<in> set (pendingInputs g). in_seq i \<le> inputSeq g)"

text \<open>A client that has buffered three inputs, and a snapshot that acknowledges two.\<close>

definition example_game :: MultiplayerGame where
  "example_game =
     (let inp = \<lparr>in_seq = 0, in_dt = 1 / 60, in_moveX = 1, in_moveZ = 0, in_jump = False,
                  in_sprint = False, in_yaw = 0, in_pitch = 0\<rparr>;
          g0 = \<lparr>mg_player = \<lparr>pc_position = \<lparr>vec_x = 0, vec_y = 50, vec_z = 0\<rparr>,
                              pc_velocity = \<lparr>vec_x = 0, vec_y = 0, vec_z = 0\<rparr>,
                              pc_yaw = 0, pc_pitch = 0, pc_health = 20, pc_onGround = False\<rparr>,
                 mg_inventory = createStarterInventory, pendingInputs = [], inputSeq = 0,
                 localPlayerId = ''p0''\<rparr>
      in bufferInput (bufferInput (bufferInput g0 inp) inp) inp)"

definition example_snapshot :: NetPlayerState where
  "example_snapshot =
     \<lparr>ns_id = ''p0'', ns_nickname = ''steve'', ns_x = 0, ns_y = 50, ns_z = 0,
      ns_vx = 1, ns_vy = - 2, ns_vz = 0, ns_yaw = 1 / 2, ns_pitch = 0, ns_health = 18,
      ns_selectedSlot = 2, ns_hotbar = inv_hotbar createStarterInventory,
      ns_lastProcessedSeq = Some 2\<rparr>"

section \<open>Properties\<close>

subsection \<open>Chunk cells and coordinates\<close>

lemma floorDiv_eq_div: "floorDiv a b = a div b"
  by (simp add: floorDiv_def floor_divide_of_int_eq)

lemma js_rem_nonneg: "0 \<le> a \<Longrightarrow> 0 < b \<Longrightarrow> js_rem a b = a mod b"
  by (cases "a = 0") (simp_all add: js_rem_def)

lemma js_rem_neg:
  assumes "a < 0" "0 < b"
  shows "js_rem a b = - ((- a) mod b)"
  using assms by (simp add: js_rem_def)

lemma mod_js_eq_mod:
  assumes "0 < b"
  shows "mod_js a b = a mod b"
proof (cases "0 \<le> a")
  case True
  with assms have "js_rem a b = a mod b" by (simp add: js_rem_nonneg)
  moreover from assms have "0 \<le> a mod b" by simp
  ultimately show ?thesis by (simp add: mod_js_def)
next
  case False
  then have neg: "a < 0" by simp
  have r: "js_rem a b = - ((- a) mod b)" using neg assms by (simp add: js_rem_neg)
  show ?thesis
  proof (cases "(- a) mod b = 0")
    case True
    then have "b dvd a" by (simp add: mod_eq_0_iff_dvd)
    then have "a mod b = 0" by simp
    with r True show ?thesis by (simp add: mod_js_def)
  next
    case nz: False
    from assms have "0 \<le> (- a) mod b" by simp
    with nz have pos: "0 < (- a) mod b" by simp
    have "a mod b = b - (- a) mod b"
      using nz zmod_zminus1_eq_if[of "- a" b] by simp
    with r pos show ?thesis by (simp add: mod_js_def)
  qed
qed

text \<open>
  C9. For every chunk and every cell coordinate outside 0 \<le> x < 16, 0 \<le> y < 96,
  0 \<le> z < 16, reading yields the air code and writing leaves the chunk (block array
  included) unchanged.
\<close>

theorem ChunkData_out_of_bounds:
  assumes "\<not> (0 \<le> x \<and> x < 16 \<and> 0 \<le> y \<and> y < 96 \<and> 0 \<le> z \<and> z < 16)"
  shows "ChunkData_get c x y z = Some Air
       \<and> ChunkData_set c x y z b = c
       \<and> blocks (ChunkData_set c x y z b) = blocks c"
proof -
  from assms have nb: "\<not> inBounds x y z"
    by (auto simp: inBounds_def CHUNK_SIZE_def WORLD_HEIGHT_def)
  have g: "ChunkData_get c x y z = Some Air" using nb by (simp add: ChunkData_get_def)
  have eq: "ChunkData_set c x y z b = c" using nb by (simp add: ChunkData_set_def)
  show ?thesis using g eq by simp
qed

theorem ChunkData_out_of_bounds_witness:
  "\<not> (0 \<le> (16::int) \<and> (16::int) < 16 \<and> 0 \<le> (5::int) \<and> (5::int) < 96 \<and> 0 \<le> (-1::int) \<and> (-1::int) < 16)
   \<and> ChunkData_get (ChunkData_existing 0 0 [Stone, Dirt]) 16 5 (-1) = Some Air
   \<and> ChunkData_set (ChunkData_existing 0 0 [Stone, Dirt]) 16 5 (-1) Wood
       = ChunkData_existing 0 0 [Stone, Dirt]"
  using ChunkData_out_of_bounds
    [of 16 5 "-1" "ChunkData_existing 0 0 [Stone, Dirt]" Wood]
  by simp

text \<open>
  C2. For every world coordinate, \<open>worldToChunkLocal\<close> returns the floored quotient
  by 16 as chunk coordinate, a local offset in 0..15 (never negative), and chunk * 16 +
  offset gives back the (floored) coordinate; x = -1 lands in chunk -1 at offset 15.
\<close>

theorem worldToChunkLocal_roundtrip:
  "loc_cx (worldToChunkLocal (of_int x) (of_int z)) = x div 16
   \<and> loc_cz (worldToChunkLocal (of_int x) (of_int z)) = z div 16
   \<and> 0 \<le> loc_lx (worldToChunkLocal (of_int x) (of_int z))
   \<and> loc_lx (worldToChunkLocal (of_int x) (of_int z)) < 16
   \<and> 0 \<le> loc_lz (worldToChunkLocal (of_int x) (of_int z))
   \<and> loc_lz (worldToChunkLocal (of_int x) (of_int z)) < 16
   \<and> loc_cx (worldToChunkLocal (of_int x) (of_int z)) * 16
       + loc_lx (worldToChunkLocal (of_int x) (of_int z)) = x
   \<and> loc_cz (worldToChunkLocal (of_int x) (of_int z)) * 16
       + loc_lz (worldToChunkLocal (of_int x) (of_int z)) = z
   \<and> loc_cx (worldToChunkLocal (-1) (-1)) = -1
   \<and> loc_lx (worldToChunkLocal (-1) (-1)) = 15"
proof -
  have m: "mod_js a CHUNK_SIZE = a mod 16" for a
    using mod_js_eq_mod[of 16 a] by (simp add: CHUNK_SIZE_def)
  have d: "floorDiv a CHUNK_SIZE = a div 16" for a
    by (simp add: floorDiv_eq_div CHUNK_SIZE_def)
  have neg: "\<lfloor>- 1 :: real\<rfloor> = - 1"
    using floor_of_int[of "- 1", where ?'a = real] by simp
  show ?thesis
    by (simp add: worldToChunkLocal_def Let_def m d neg)
qed

subsection \<open>Base64 transport of chunk buffers\<close>

lemma index_in_nth: "distinct xs \<Longrightarrow> i < length xs \<Longrightarrow> index_in (xs ! i) xs = Some i"
proof (induction xs arbitrary: i)
  case Nil then show ?case by simp
next
  case (Cons x xs)
  show ?case
  proof (cases i)
    case 0 then show ?thesis by simp
  next
    case (Suc j)
    with Cons.prems have "j < length xs" "distinct xs" "xs ! j \<noteq> x" by auto
    with Cons.IH[of j] Suc show ?thesis by simp
  qed
qed

lemma b64_alphabet_distinct: "distinct b64_alphabet"
  by (simp add: b64_alphabet_def)

lemma b64_alphabet_length: "length b64_alphabet = 64"
  by (simp add: b64_alphabet_def)

lemma b64_value_char: "i < 64 \<Longrightarrow> b64_value (b64_char i) = Some i"
  by (simp add: b64_value_def b64_char_def index_in_nth b64_alphabet_distinct b64_alphabet_length)

lemma b64_char_in: "i < 64 \<Longrightarrow> b64_char i \<in> set b64_alphabet"
  by (simp add: b64_char_def b64_alphabet_length)

lemma b64_char_not_pad: "i < 64 \<Longrightarrow> b64_char i \<noteq> CHR ''=''"
proof -
  have "CHR ''='' \<notin> set b64_alphabet" by (simp add: b64_alphabet_def)
  then show "i < 64 \<Longrightarrow> b64_char i \<noteq> CHR ''=''" using b64_char_in by metis
qed

lemma b64_char_not_ws: "i < 64 \<Longrightarrow> \<not> is_ascii_whitespace (b64_char i)"
proof -
  have "\<forall>c \<in> set b64_alphabet. \<not> is_ascii_whitespace c"
    by (simp add: b64_alphabet_def is_ascii_whitespace_def)
  then show "i < 64 \<Longrightarrow> \<not> is_ascii_whitespace (b64_char i)" using b64_char_in by blast
qed

lemma pad_not_ws: "\<not> is_ascii_whitespace CHR ''=''"
  by (simp add: is_ascii_whitespace_def)

lemma byte_char: "(of_char (char_of (unat (a :: 8 word))) :: 8 word) = a"
proof -
  have lt: "unat a < 256" using unsigned_less[of a] by simp
  have "(of_char (char_of (unat a)) :: 8 word) = of_nat (of_char (char_of (unat a)) :: nat)"
    by (simp only: of_nat_of_char)
  also have "(of_char (char_of (unat a)) :: nat) = unat a mod 256" by (rule of_char_of)
  also have "\<dots> = unat a" using lt by simp
  finally show ?thesis by simp
qed

lemma u16_roundtrip: "(ucast (ucast w :: 8 word) :: 16 word) OR push_bit 8 (ucast (ucast (drop_bit 8 w) :: 8 word)) = (w :: 16 word)"
  by (rule bit_word_eqI) (auto simp add: bit_simps)

lemma u16s_bytes_roundtrip: "u16s_of_bytes (bytes_of_u16s ws) = ws"
  by (induction ws) (simp_all add: bytes_of_u16s_def u16_roundtrip)

lemma bytes_of_u16s_even: "even (length (bytes_of_u16s ws))"
  by (induction ws) (simp_all add: bytes_of_u16s_def)

lemma base64_encode_shape:
  "base64_encode bs = map b64_char (enc_vals bs) @ enc_padding bs"
  by (induction bs rule: base64_encode.induct) (simp_all add: Let_def)

lemma enc_padding_cases: "enc_padding bs = [] \<or> enc_padding bs = ''='' \<or> enc_padding bs = ''==''"
  by (induction bs rule: enc_padding.induct) simp_all

lemma unat8_lt: "unat (a :: 8 word) < 256"
  using unsigned_less[of a] by simp

lemma n24: "unat (a::8 word) * 65536 + unat (b::8 word) * 256 + unat (c::8 word) < 64 * 262144"
  using unat8_lt[of a] unat8_lt[of b] unat8_lt[of c] by linarith

lemma enc_vals_bound: "\<forall>v \<in> set (enc_vals bs). v < 64"
proof (induction bs rule: enc_vals.induct)
  case 1 show ?case by simp
next
  case (2 a)
  have "unat a * 65536 < 64 * 262144" using unat8_lt[of a] by linarith
  then have "unat a * 65536 div 262144 < 64" by (rule less_mult_imp_div_less)
  then show ?case by (simp add: Let_def)
next
  case (3 a b)
  have "unat a * 65536 + unat b * 256 < 64 * 262144" using unat8_lt[of a] unat8_lt[of b] by linarith
  then have "(unat a * 65536 + unat b * 256) div 262144 < 64" by (rule less_mult_imp_div_less)
  then show ?case by (simp add: Let_def)
next
  case (4 a b c rest)
  have "(unat a * 65536 + unat b * 256 + unat c) div 262144 < 64"
    using n24[of a b c] by (rule less_mult_imp_div_less)
  with 4 show ?case by (simp add: Let_def)
qed

lemma enc_vals_length: "length (enc_vals bs) mod 4 \<noteq> 1"
proof (induction bs rule: enc_vals.induct)
  case (4 a b c rest)
  have len: "length (enc_vals (a # b # c # rest)) = 4 + length (enc_vals rest)"
    by (simp add: Let_def)
  have ih: "length (enc_vals rest) mod 4 \<noteq> 1" using 4 by simp
  have "(4 + length (enc_vals rest)) mod 4 = length (enc_vals rest) mod 4" by simp
  with ih show ?case unfolding len by simp
qed (simp_all add: Let_def)

lemma base64_encode_length: "length (base64_encode bs) mod 4 = 0"
proof (induction bs rule: base64_encode.induct)
  case (4 a b c rest)
  have len: "length (base64_encode (a # b # c # rest)) = 4 + length (base64_encode rest)"
    by (simp add: Let_def)
  have ih: "length (base64_encode rest) mod 4 = 0" using 4 by simp
  have "(4 + length (base64_encode rest)) mod 4 = length (base64_encode rest) mod 4" by simp
  with ih show ?case unfolding len by simp
qed (simp_all add: Let_def)

lemma base64_encode_no_ws:
  "filter (\<lambda>c. \<not> is_ascii_whitespace c) (base64_encode bs) = base64_encode bs"
proof -
  have "\<forall>c \<in> set (base64_encode bs). \<not> is_ascii_whitespace c"
    unfolding base64_encode_shape
    using enc_vals_bound[of bs] enc_padding_cases[of bs]
    by (auto simp: b64_char_not_ws pad_not_ws)
  then show ?thesis by (simp add: filter_id_conv)
qed

lemma strip_padding_encoded:
  assumes "\<forall>v \<in> set vs. v < 64"
    and "pad = [] \<or> pad = ''='' \<or> pad = ''==''"
  shows "strip_padding (map b64_char vs @ pad) = map b64_char vs"
proof -
  have nl: "vs \<noteq> [] \<Longrightarrow> last (map b64_char vs) \<noteq> CHR ''=''"
    using assms(1) by (simp add: last_map b64_char_not_pad)
  from assms(2) consider "pad = []" | "pad = ''=''" | "pad = ''==''" by blast
  then show ?thesis
  proof cases
    case 1
    then show ?thesis using nl by (cases "vs = []") (auto simp: strip_padding_def)
  next
    case 2
    then show ?thesis using nl
      by (cases "vs = []") (auto simp: strip_padding_def butlast_append)
  next
    case 3
    then show ?thesis by (auto simp: strip_padding_def butlast_append)
  qed
qed

lemma those_b64: "\<forall>v \<in> set vs. v < 64 \<Longrightarrow> those (map b64_value (map b64_char vs)) = Some vs"
  by (induction vs) (simp_all add: b64_value_char)


lemma divmod_stack:
  fixes n :: nat
  shows "(n div 262144) * 262144 + (n div 4096 mod 64) * 4096 + (n div 64 mod 64) * 64 + n mod 64 = n"
proof -
  have a: "n = 262144 * (n div 262144) + n mod 262144" by simp
  have b: "n mod (4096 * 64) = 4096 * (n div 4096 mod 64) + n mod 4096" by (rule mod_mult2_eq)
  have c: "n mod (64 * 64) = 64 * (n div 64 mod 64) + n mod 64" by (rule mod_mult2_eq)
  have g: "\<And>P Q R S R1 R2 :: nat. n = 262144 * P + R1 \<Longrightarrow> R1 = 4096 * Q + R2 \<Longrightarrow> R2 = 64 * R + S
      \<Longrightarrow> P * 262144 + Q * 4096 + R * 64 + S = n" by simp
  show ?thesis
    apply (rule g[OF a])
    using b apply simp
    using c apply simp
    done
qed

lemma div_base: "r < m \<Longrightarrow> (a * m + r) div m = (a::nat)"
  by simp

lemma mod_base: "r < m \<Longrightarrow> (a * m + r) mod m = (r::nat)"
  by simp

lemma group3_dec:
  fixes a b c :: nat
  assumes "b < 256" "c < 256"
  shows "(a * 65536 + b * 256 + c) div 65536 = a"
    and "(a * 65536 + b * 256 + c) div 256 mod 256 = b"
    and "(a * 65536 + b * 256 + c) mod 256 = c"
proof -
  have r: "b * 256 + c < 65536" using assms by linarith
  show "(a * 65536 + b * 256 + c) div 65536 = a"
    using div_base[OF r, of a] by (simp add: add.assoc)
  have e: "a * 65536 + b * 256 + c = (a * 256 + b) * 256 + c" by simp
  have d: "(a * 65536 + b * 256 + c) div 256 = a * 256 + b"
    unfolding e using div_base[OF assms(2), of "a * 256 + b"] .
  show "(a * 65536 + b * 256 + c) div 256 mod 256 = b"
    unfolding d using mod_base[OF assms(1), of a] .
  show "(a * 65536 + b * 256 + c) mod 256 = c"
    unfolding e using mod_base[OF assms(2), of "a * 256 + b"] .
qed

lemma stack2:
  fixes a b :: nat
  defines "n \<equiv> a * 65536 + b * 256"
  shows "(n div 262144) * 262144 + (n div 4096 mod 64) * 4096 + (n div 64 mod 64) * 64 = n"
proof -
  have "n = (a * 1024 + b * 4) * 64" by (simp add: n_def)
  then have "n mod 64 = 0" by simp
  with divmod_stack[of n] show ?thesis by simp
qed

lemma stack1:
  fixes a :: nat
  defines "n \<equiv> a * 65536"
  shows "(n div 262144) * 262144 + (n div 4096 mod 64) * 4096 = n"
proof -
  have e: "n = (a * 16) * 4096" by (simp add: n_def)
  have m: "n mod (64 * 64) = 64 * (n div 64 mod 64) + n mod 64" by (rule mod_mult2_eq)
  have "n mod (64 * 64) = 0" unfolding e by simp
  with m have "n div 64 mod 64 = 0" "n mod 64 = 0" by simp_all
  with divmod_stack[of n] show ?thesis by simp
qed

lemma groups_enc: "b64_groups (enc_vals bs) = map (\<lambda>b. char_of (unat b)) bs"
proof (induction bs rule: enc_vals.induct)
  case 1
  show ?case by simp
next
  case (2 a)
  define n where "n = unat a * 65536"
  have ev: "enc_vals [a] = [n div 262144, n div 4096 mod 64]"
    by (simp only: enc_vals.simps Let_def n_def)
  have m: "(n div 262144) * 262144 + (n div 4096 mod 64) * 4096 = n"
    unfolding n_def by (rule stack1)
  have d: "n div 65536 = unat a" by (simp add: n_def)
  show ?case unfolding ev by (simp only: b64_groups.simps Let_def m d list.map)
next
  case (3 a b)
  define n where "n = unat a * 65536 + unat b * 256"
  have ev: "enc_vals [a, b] = [n div 262144, n div 4096 mod 64, n div 64 mod 64]"
    by (simp only: enc_vals.simps Let_def n_def)
  have m: "(n div 262144) * 262144 + (n div 4096 mod 64) * 4096 + (n div 64 mod 64) * 64 = n"
    unfolding n_def by (rule stack2)
  have d: "n div 65536 = unat a" "n div 256 mod 256 = unat b"
    using group3_dec(1,2)[of "unat b" 0 "unat a"] unat8_lt[of b] by (simp_all add: n_def)
  show ?case unfolding ev by (simp only: b64_groups.simps Let_def m d list.map)
next
  case (4 a b c rest)
  define n where "n = unat a * 65536 + unat b * 256 + unat c"
  have ev: "enc_vals (a # b # c # rest)
      = n div 262144 # n div 4096 mod 64 # n div 64 mod 64 # n mod 64 # enc_vals rest"
    by (simp only: enc_vals.simps Let_def n_def append.simps)
  have d: "n div 65536 = unat a" "n div 256 mod 256 = unat b" "n mod 256 = unat c"
    using group3_dec[of "unat b" "unat c" "unat a"] unat8_lt[of b] unat8_lt[of c]
    by (simp_all add: n_def)
  have ih: "b64_groups (enc_vals rest) = map (\<lambda>b. char_of (unat b)) rest" using 4 by simp
  show ?case unfolding ev
    by (simp only: b64_groups.simps Let_def divmod_stack d ih list.map append.simps)
qed

lemma atob_base64_encode: "atob (base64_encode bs) = Some (map (\<lambda>b. char_of (unat b)) bs)"
proof -
  have s: "strip_padding (base64_encode bs) = map b64_char (enc_vals bs)"
    unfolding base64_encode_shape
    using enc_vals_bound[of bs] enc_padding_cases[of bs] by (rule strip_padding_encoded)
  have l: "length (map b64_char (enc_vals bs)) mod 4 \<noteq> 1" using enc_vals_length[of bs] by simp
  have t: "those (map b64_value (map b64_char (enc_vals bs))) = Some (enc_vals bs)"
    using enc_vals_bound[of bs] by (rule those_b64)
  have d2: "(if length (base64_encode bs) mod 4 = 0 then strip_padding (base64_encode bs)
              else base64_encode bs) = map b64_char (enc_vals bs)"
    by (simp add: base64_encode_length s)
  show ?thesis
    unfolding atob_def Let_def base64_encode_no_ws d2
    using l by (simp only: t groups_enc if_False option.map)
qed

lemma decode_bytes: "map (\<lambda>ch. (of_char ch :: 8 word)) (map (\<lambda>b. char_of (unat b)) bs) = bs"
  by (induction bs) (simp_all add: byte_char)

lemma decode_encode_blocks: "decodeChunkBase64 (base64_encode (bytes_of_u16s bl)) = Inr bl"
  by (simp add: decodeChunkBase64_def atob_base64_encode decode_bytes del: map_map
        add: bytes_of_u16s_even u16s_bytes_roundtrip)

text \<open>
  C3. Encoding a chunk's block buffer with \<open>encodeChunkBase64\<close> and decoding the
  string with \<open>decodeChunkBase64\<close> succeeds and gives back exactly the chunk's array
  of 16-bit block codes; the same holds for the encoding of any array \<open>bl\<close> of 16-bit
  codes, whatever its length.
\<close>

theorem chunk_base64_roundtrip:
  "decodeChunkBase64 (fst (encodeChunkBase64 w cx cz)) = Inr (blocks (fst (getChunk w cx cz)))
   \<and> decodeChunkBase64 (base64_encode (bytes_of_u16s bl)) = Inr bl"
  by (simp add: encodeChunkBase64_def decode_encode_blocks split: prod.split)

subsection \<open>Streaming scheduler\<close>

declare processLoadQueue.simps [simp del]

lemma chunkKey_pair [simp]: "chunkKey (fst c) (snd c) = c"
  by (simp add: chunkKey_def)

lemma markChunkMeshDirty_sched [simp]:
  "loadQueue (markChunkMeshDirty ws cx cz) = loadQueue ws"
  "queuedKeys (markChunkMeshDirty ws cx cz) = queuedKeys ws"
  "loadingKeys (markChunkMeshDirty ws cx cz) = loadingKeys ws"
  "maxConcurrentLoads (markChunkMeshDirty ws cx cz) = maxConcurrentLoads ws"
  by (simp_all add: markChunkMeshDirty_def split: option.split)

lemma sched_inv_cong:
  assumes "sched_inv ws fl"
    and "loadQueue ws' = loadQueue ws" "queuedKeys ws' = queuedKeys ws"
    and "loadingKeys ws' = loadingKeys ws" "maxConcurrentLoads ws' = maxConcurrentLoads ws"
  shows "sched_inv ws' fl"
  using assms by (simp add: sched_inv_def)

lemma proceed_sched [simp]:
  "loadQueue (ur_store (unload_proceed ws repo trace r)) = loadQueue ws"
  "queuedKeys (ur_store (unload_proceed ws repo trace r)) = queuedKeys ws"
  "loadingKeys (ur_store (unload_proceed ws repo trace r)) = loadingKeys ws"
  "maxConcurrentLoads (ur_store (unload_proceed ws repo trace r)) = maxConcurrentLoads ws"
  by (simp_all add: unload_proceed_def split: sum.split)

lemma unload_sched [simp]:
  "loadQueue (ur_store (unloadFarChunks ws repo x z radius)) = loadQueue ws"
  "queuedKeys (ur_store (unloadFarChunks ws repo x z radius)) = queuedKeys ws"
  "loadingKeys (ur_store (unloadFarChunks ws repo x z radius)) = loadingKeys ws"
  "maxConcurrentLoads (ur_store (unloadFarChunks ws repo x z radius)) = maxConcurrentLoads ws"
  by (simp_all add: unloadFarChunks_def)

lemma unload_resume_sched [simp]:
  "loadQueue (ur_store (unloadFarChunks_resume ws repo trace task)) = loadQueue ws"
  "queuedKeys (ur_store (unloadFarChunks_resume ws repo trace task)) = queuedKeys ws"
  "loadingKeys (ur_store (unloadFarChunks_resume ws repo trace task)) = loadingKeys ws"
  "maxConcurrentLoads (ur_store (unloadFarChunks_resume ws repo trace task)) = maxConcurrentLoads ws"
  by (simp_all add: unloadFarChunks_resume_def split: option.split)

lemma flush_sched [simp]:
  "loadQueue (fst (flushDirtyChunks ws repo)) = loadQueue ws"
  "queuedKeys (fst (flushDirtyChunks ws repo)) = queuedKeys ws"
  "loadingKeys (fst (flushDirtyChunks ws repo)) = loadingKeys ws"
  "maxConcurrentLoads (fst (flushDirtyChunks ws repo)) = maxConcurrentLoads ws"
  by (simp_all add: flushDirtyChunks_def split: prod.split)

lemma save_sched [simp]:
  "loadQueue (fst (saveChunkIfDirty ws repo cx cz)) = loadQueue ws"
  "queuedKeys (fst (saveChunkIfDirty ws repo cx cz)) = queuedKeys ws"
  "loadingKeys (fst (saveChunkIfDirty ws repo cx cz)) = loadingKeys ws"
  "maxConcurrentLoads (fst (saveChunkIfDirty ws repo cx cz)) = maxConcurrentLoads ws"
  by (simp_all add: saveChunkIfDirty_def Let_def split: option.split)

lemma getBlock_sched [simp]:
  "loadQueue (snd (WorldStore_getBlock ws x y z now)) = loadQueue ws"
  "queuedKeys (snd (WorldStore_getBlock ws x y z now)) = queuedKeys ws"
  "loadingKeys (snd (WorldStore_getBlock ws x y z now)) = loadingKeys ws"
  "maxConcurrentLoads (snd (WorldStore_getBlock ws x y z now)) = maxConcurrentLoads ws"
  by (simp_all add: WorldStore_getBlock_def Let_def split: option.split)

lemma setBlock_sched [simp]:
  "loadQueue (snd (WorldStore_setBlock ws x y z b now)) = loadQueue ws"
  "queuedKeys (snd (WorldStore_setBlock ws x y z b now)) = queuedKeys ws"
  "loadingKeys (snd (WorldStore_setBlock ws x y z b now)) = loadingKeys ws"
  "maxConcurrentLoads (snd (WorldStore_setBlock ws x y z b now)) = maxConcurrentLoads ws"
  by (simp_all add: WorldStore_setBlock_def Let_def split: option.split)


lemma queue_fold_loadQueue:
  "loadQueue (fold (\<lambda>(cx, cz, dist2) w.
             w\<lparr>loadQueue := loadQueue w @ [(cx, cz)],
               queuedKeys := finsert (chunkKey cx cz) (queuedKeys w)\<rparr>) ts ws)
   = loadQueue ws @ map (\<lambda>(cx, cz, dist2). (cx, cz)) ts"
  by (induction ts arbitrary: ws) (auto split: prod.split)

lemma queue_fold_queuedKeys:
  "fset (queuedKeys (fold (\<lambda>(cx, cz, dist2) w.
             w\<lparr>loadQueue := loadQueue w @ [(cx, cz)],
               queuedKeys := finsert (chunkKey cx cz) (queuedKeys w)\<rparr>) ts ws))
   = fset (queuedKeys ws) \<union> set (map (\<lambda>(cx, cz, dist2). (cx, cz)) ts)"
  by (induction ts arbitrary: ws) (auto simp: chunkKey_def split: prod.split)

lemma queue_fold_rest:
  "loadingKeys (fold (\<lambda>(cx, cz, dist2) w.
             w\<lparr>loadQueue := loadQueue w @ [(cx, cz)],
               queuedKeys := finsert (chunkKey cx cz) (queuedKeys w)\<rparr>) ts ws) = loadingKeys ws"
  "maxConcurrentLoads (fold (\<lambda>(cx, cz, dist2) w.
             w\<lparr>loadQueue := loadQueue w @ [(cx, cz)],
               queuedKeys := finsert (chunkKey cx cz) (queuedKeys w)\<rparr>) ts ws) = maxConcurrentLoads ws"
  "chunks (fold (\<lambda>(cx, cz, dist2) w.
             w\<lparr>loadQueue := loadQueue w @ [(cx, cz)],
               queuedKeys := finsert (chunkKey cx cz) (queuedKeys w)\<rparr>) ts ws) = chunks ws"
  by (induction ts arbitrary: ws) (auto split: prod.split)

lemma queue_loadQueue:
  "loadQueue (queueChunksAround ws x z radius) = loadQueue ws @ enqueued ws x z radius"
  by (simp add: queueChunksAround_def enqueued_def queue_fold_loadQueue)

lemma queue_queuedKeys:
  "fset (queuedKeys (queueChunksAround ws x z radius))
     = fset (queuedKeys ws) \<union> set (enqueued ws x z radius)"
  by (simp add: queueChunksAround_def enqueued_def queue_fold_queuedKeys)

lemma queue_rest [simp]:
  "loadingKeys (queueChunksAround ws x z radius) = loadingKeys ws"
  "maxConcurrentLoads (queueChunksAround ws x z radius) = maxConcurrentLoads ws"
  "chunks (queueChunksAround ws x z radius) = chunks ws"
  by (simp_all add: queueChunksAround_def queue_fold_rest)

lemma distinct_map_concat:
  assumes "distinct xs"
    and "\<And>x. x \<in> set xs \<Longrightarrow> distinct (map p (F x))"
    and "\<And>x y. x \<in> set xs \<Longrightarrow> y \<in> set xs \<Longrightarrow> x \<noteq> y \<Longrightarrow> p ` set (F x) \<inter> p ` set (F y) = {}"
  shows "distinct (map p (concat (map F xs)))"
  using assms
proof (induction xs)
  case Nil
  then show ?case by simp
next
  case (Cons a xs)
  have d: "distinct (map p (F a))" using Cons.prems(2) by simp
  have ih: "distinct (map p (concat (map F xs)))"
    using Cons.IH Cons.prems by simp
  have disj: "p ` set (F a) \<inter> p ` set (concat (map F xs)) = {}"
  proof -
    have "\<And>y. y \<in> set xs \<Longrightarrow> p ` set (F a) \<inter> p ` set (F y) = {}"
      using Cons.prems(1,3) by auto
    then show ?thesis by auto
  qed
  show ?case using d ih disj by simp
qed


lemma candidate_cases:
  "queue_candidate ws center dx dz = []
   \<or> queue_candidate ws center dx dz = [(fst center + dx, snd center + dz, dx * dx + dz * dz)]"
  by (simp add: queue_candidate_def Let_def)

lemma candidate_proj:
  "t \<in> set (queue_candidate ws center dx dz) \<Longrightarrow> proj t = (fst center + dx, snd center + dz)"
  using candidate_cases[of ws center dx dz] by (auto simp: proj_def)

lemma candidate_fresh:
  "t \<in> set (queue_candidate ws center dx dz) \<Longrightarrow>
     \<not> has_chunk (chunks ws) (proj t) \<and> proj t |\<notin>| queuedKeys ws \<and> proj t |\<notin>| loadingKeys ws"
  by (auto simp: queue_candidate_def Let_def proj_def chunkKey_def split: if_splits)

lemma row_distinct:
  "distinct (map proj (concat (map (\<lambda>dz. queue_candidate ws center dx dz) [- r..r])))"
proof (rule distinct_map_concat)
  show "distinct [- r..r]" by simp
  show "distinct (map proj (queue_candidate ws center dx dz))" for dz
    using candidate_cases[of ws center dx dz] by auto
  show "proj ` set (queue_candidate ws center dx dz) \<inter> proj ` set (queue_candidate ws center dx dz') = {}"
    if "dz \<noteq> dz'" for dz dz'
    using that candidate_proj[of _ ws center dx dz] candidate_proj[of _ ws center dx dz']
    by fastforce
qed

lemma row_proj:
  "t \<in> set (concat (map (\<lambda>dz. queue_candidate ws center dx dz) ds)) \<Longrightarrow> fst (proj t) = fst center + dx"
  using candidate_proj by fastforce

lemma grid_distinct:
  "distinct (map proj (concat (map (\<lambda>dx. concat (map (\<lambda>dz. queue_candidate ws center dx dz) [- r..r])) [- r..r])))"
proof (rule distinct_map_concat)
  show "distinct [- r..r]" by simp
  show "distinct (map proj (concat (map (\<lambda>dz. queue_candidate ws center dx dz) [- r..r])))" for dx
    by (rule row_distinct)
  show "proj ` set (concat (map (\<lambda>dz. queue_candidate ws center dx dz) [- r..r]))
        \<inter> proj ` set (concat (map (\<lambda>dz. queue_candidate ws center dx' dz) [- r..r])) = {}"
    if "dx \<noteq> dx'" for dx dx'
  proof (rule Int_emptyI)
    fix k
    assume "k \<in> proj ` set (concat (map (\<lambda>dz. queue_candidate ws center dx dz) [- r..r]))"
      and "k \<in> proj ` set (concat (map (\<lambda>dz. queue_candidate ws center dx' dz) [- r..r]))"
    then obtain t t' where t: "t \<in> set (concat (map (\<lambda>dz. queue_candidate ws center dx dz) [- r..r]))"
      and t': "t' \<in> set (concat (map (\<lambda>dz. queue_candidate ws center dx' dz) [- r..r]))"
      and e: "k = proj t" "k = proj t'" by blast
    from row_proj[OF t] row_proj[OF t'] e that show False by simp
  qed
qed

lemma grid_fresh:
  "t \<in> set (concat (map (\<lambda>dx. concat (map (\<lambda>dz. queue_candidate ws center dx dz) ds)) ds')) \<Longrightarrow>
     \<not> has_chunk (chunks ws) (proj t) \<and> proj t |\<notin>| queuedKeys ws \<and> proj t |\<notin>| loadingKeys ws"
  using candidate_fresh by fastforce

lemma enqueued_alt:
  "enqueued ws x z radius = map proj (sort_key (\<lambda>(cx, cz, dist2). dist2)
      (concat (map (\<lambda>dx. concat (map (\<lambda>dz. queue_candidate ws (worldToChunk x z) dx dz)
              [- radius..radius])) [- radius..radius])))"
  by (simp add: enqueued_def queue_targets_def Let_def proj_def)

lemma enqueued_distinct: "distinct (enqueued ws x z radius)"
proof -
  let ?g = "concat (map (\<lambda>dx. concat (map (\<lambda>dz. queue_candidate ws (worldToChunk x z) dx dz)
              [- radius..radius])) [- radius..radius])"
  have "distinct (map proj ?g)" by (rule grid_distinct)
  then have "distinct ?g \<and> inj_on proj (set ?g)" by (simp add: distinct_map)
  then have "distinct (sort_key (\<lambda>(cx, cz, dist2). dist2) ?g)
      \<and> inj_on proj (set (sort_key (\<lambda>(cx, cz, dist2). dist2) ?g))" by simp
  then have "distinct (map proj (sort_key (\<lambda>(cx, cz, dist2). dist2) ?g))"
    by (simp only: distinct_map)
  then show ?thesis by (simp only: enqueued_alt)
qed

lemma enqueued_fresh:
  assumes "c \<in> set (enqueued ws x z radius)"
  shows "\<not> has_chunk (chunks ws) c \<and> c |\<notin>| queuedKeys ws \<and> c |\<notin>| loadingKeys ws"
proof -
  let ?g = "concat (map (\<lambda>dx. concat (map (\<lambda>dz. queue_candidate ws (worldToChunk x z) dx dz)
              [- radius..radius])) [- radius..radius])"
  from assms have "c \<in> proj ` set ?g" by (simp only: enqueued_alt set_map set_sort)
  then obtain t where t: "t \<in> set ?g" and c: "c = proj t" by blast
  show ?thesis unfolding c by (rule grid_fresh[OF t])
qed


lemma queue_inv:
  assumes "sched_inv ws fl"
  shows "sched_inv (queueChunksAround ws x z radius) fl"
proof -
  have fresh: "set (enqueued ws x z radius) \<inter> set (loadQueue ws) = {}"
    using enqueued_fresh[of _ ws x z radius] assms by (auto simp: sched_inv_def)
  show ?thesis
    using assms fresh enqueued_distinct[of ws x z radius]
    by (auto simp: sched_inv_def queue_loadQueue queue_queuedKeys)
qed

lemma fcard_inflight:
  assumes "sched_inv ws fl"
  shows "fcard (loadingKeys ws) = length fl"
  using assms by (simp add: sched_inv_def fcard.rep_eq distinct_card)

lemma process_inv:
  "sched_inv ws fl \<Longrightarrow> sched_inv (fst (processLoadQueue ws)) (fl @ snd (processLoadQueue ws))"
proof (induction ws arbitrary: fl rule: processLoadQueue.induct)
  case (1 ws)
  note inv = \<open>sched_inv ws fl\<close>
  show ?case
  proof (cases "fcard (loadingKeys ws) < maxConcurrentLoads ws \<and> 0 < length (loadQueue ws)")
    case False
    then have "processLoadQueue ws = (ws, [])" by (simp add: processLoadQueue.simps[of ws])
    with inv show ?thesis by simp
  next
    case True
    then obtain nxt rest where q: "loadQueue ws = nxt # rest" by (cases "loadQueue ws") auto
    define key where "key = chunkKey (fst nxt) (snd nxt)"
    define ws1 where "ws1 = ws\<lparr>loadQueue := rest, queuedKeys := queuedKeys ws |-| {|key|}\<rparr>"
    have key: "key = nxt" by (simp add: key_def)
    have inv1: "sched_inv ws1 fl"
      using inv q by (auto simp: sched_inv_def ws1_def key)
    show ?thesis
    proof (cases "has_chunk (chunks ws1) key \<or> key |\<in>| loadingKeys ws1")
      case skip: True
      have e: "processLoadQueue ws = processLoadQueue ws1"
        using True q skip by (simp add: processLoadQueue.simps[of ws] Let_def key_def ws1_def)
      have "sched_inv (fst (processLoadQueue ws1)) (fl @ snd (processLoadQueue ws1))"
        using "1.IH"(1)[OF True q key_def ws1_def skip inv1] .
      then show ?thesis by (simp add: e)
    next
      case start: False
      define ws2 where "ws2 = ws1\<lparr>loadingKeys := finsert key (loadingKeys ws1)\<rparr>"
      have e: "processLoadQueue ws = (fst (processLoadQueue ws2), nxt # snd (processLoadQueue ws2))"
        using True q start
        by (simp add: processLoadQueue.simps[of ws] Let_def key_def ws1_def ws2_def split: prod.split)
      have "length fl < 2" using True fcard_inflight[OF inv] inv by (simp add: sched_inv_def)
      moreover have "nxt \<notin> set fl" using start inv1 by (auto simp: sched_inv_def key)
      ultimately have inv2: "sched_inv ws2 (fl @ [nxt])"
        using inv1 by (auto simp: sched_inv_def ws2_def key)
      have "sched_inv (fst (processLoadQueue ws2)) ((fl @ [nxt]) @ snd (processLoadQueue ws2))"
        using "1.IH"(2)[OF True q key_def ws1_def start, folded ws2_def, OF inv2] .
      then show ?thesis by (simp add: e)
    qed
  qed
qed

lemma resolved_inv:
  assumes "sched_inv ws fl"
  shows "sched_inv (loadChunk_resolved ws cx cz persisted now) (remove1 (cx, cz) fl)"
  using assms
  by (auto simp: sched_inv_def loadChunk_resolved_def Let_def chunkKey_def length_remove1)

lemma rejected_inv:
  assumes "sched_inv ws fl"
  shows "sched_inv (loadChunk_rejected ws cx cz) (remove1 (cx, cz) fl)"
  using assms
  by (auto simp: sched_inv_def loadChunk_rejected_def chunkKey_def length_remove1)

lemma reachable_inv: "reachable ws fl \<Longrightarrow> sched_inv ws fl"
proof (induction rule: reachable.induct)
  case (r_new generator seed)
  show ?case by (simp add: sched_inv_def WorldStore_new_def)
next
  case (r_queue ws inflight x z radius)
  then show ?case by (simp add: queue_inv)
next
  case (r_process ws inflight)
  then show ?case by (simp add: process_inv)
next
  case (r_resolved ws inflight cx cz persisted now)
  then show ?case by (simp add: resolved_inv)
next
  case (r_rejected ws inflight cx cz)
  then show ?case by (simp add: rejected_inv)
qed (erule sched_inv_cong; simp)+

text \<open>
  C4. In every reachable state of the scheduler at most two loads are in flight (and
  \<open>loadingKeys\<close> holds exactly those), and what \<open>queueChunksAround\<close> appends to the load
  queue has no repetition and no coordinate that is resident, already queued or in flight.
\<close>

theorem scheduler_bounded_and_fresh:
  assumes "reachable ws inflight"
  shows "maxConcurrentLoads ws = 2 \<and> length inflight \<le> maxConcurrentLoads ws
       \<and> fcard (loadingKeys ws) = length inflight
       \<and> loadQueue (queueChunksAround ws x z radius) = loadQueue ws @ enqueued ws x z radius
       \<and> distinct (enqueued ws x z radius)
       \<and> (\<forall>c \<in> set (enqueued ws x z radius).
             \<not> has_chunk (chunks ws) (chunkKey (fst c) (snd c))
             \<and> c \<notin> set (loadQueue ws) \<and> c \<notin> set inflight)"
proof -
  have inv: "sched_inv ws inflight" using assms by (rule reachable_inv)
  have "maxConcurrentLoads ws = 2 \<and> length inflight \<le> maxConcurrentLoads ws"
    using inv by (simp add: sched_inv_def)
  moreover have "fcard (loadingKeys ws) = length inflight" using inv by (rule fcard_inflight)
  moreover have "\<forall>c \<in> set (enqueued ws x z radius).
             \<not> has_chunk (chunks ws) (chunkKey (fst c) (snd c))
             \<and> c \<notin> set (loadQueue ws) \<and> c \<notin> set inflight"
    using enqueued_fresh[of _ ws x z radius] inv by (auto simp: sched_inv_def)
  ultimately show ?thesis by (simp add: queue_loadQueue enqueued_distinct)
qed


theorem scheduler_bounded_and_fresh_witness:
  "reachable (fst (processLoadQueue example_store)) (snd (processLoadQueue example_store))
   \<and> length (snd (processLoadQueue example_store)) \<le> 2
   \<and> fcard (loadingKeys (fst (processLoadQueue example_store)))
       = length (snd (processLoadQueue example_store))
   \<and> distinct (enqueued (fst (processLoadQueue example_store)) 0 0 2)
   \<and> set (enqueued (fst (processLoadQueue example_store)) 0 0 2)
         \<inter> set (loadQueue (fst (processLoadQueue example_store))) = {}
   \<and> set (enqueued (fst (processLoadQueue example_store)) 0 0 2)
         \<inter> set (snd (processLoadQueue example_store)) = {}"
proof -
  have r: "reachable (fst (processLoadQueue example_store)) (snd (processLoadQueue example_store))"
    using r_process[OF r_queue[OF r_new], of "WorldGenerator_new 42" 42 0 0 1]
    by (simp add: example_store_def)
  show ?thesis using r scheduler_bounded_and_fresh[OF r, of 0 0 2] by auto
qed

subsection \<open>Eviction\<close>

lemma ex_far_center: "worldToChunk 208 0 = (13, 0)" by (simp add: worldToChunk_def floorDiv_def CHUNK_SIZE_def)

lemma ex_unload_call: "example_unload_call =
   \<lparr>ur_store = example_far_store, ur_repo = example_repo,
    ur_trace = [SaveChunk (42, 0, 1) ((replicate 24576 Air)[0 := Dirt])],
    ur_status = Awaiting example_unload_task\<rparr>"
  by (simp add: example_unload_call_def unloadFarChunks_def ex_far_center VIEW_DISTANCE_CHUNKS_def
      example_far_store_def WorldStore_new_def parseChunkKey_def storageChunkKey_def
      unload_proceed_def example_unload_task_def ChunkData_existing_def)

lemma ex_far_local: "worldToChunkLocal 0 0 = \<lparr>loc_cx = 0, loc_cz = 0, loc_lx = 0, loc_lz = 0\<rparr>"
  by (simp add: worldToChunkLocal_def floorDiv_def mod_js_def js_rem_def CHUNK_SIZE_def)

lemma ex_far_edit: "WorldStore_setBlock example_far_store 0 0 0 Air 1 =
  (True, example_far_store\<lparr>chunks :=
        [((0, 0), \<lparr>chunk = \<lparr>cd_cx = 0, cd_cz = 0, blocks = (replicate 24576 Air)[0 := Air]\<rparr>,
                   dirty = True, meshDirty = True, lastTouched = 1\<rparr>),
         ((0, 1), \<lparr>chunk = ChunkData_existing 0 1 ((replicate 24576 Air)[0 := Dirt]),
                   dirty = True, meshDirty = False, lastTouched = 0\<rparr>)]\<rparr>)"
  by (simp add: WorldStore_setBlock_def ex_far_local WORLD_HEIGHT_def chunkKey_def example_far_store_def
      WorldStore_new_def ChunkData_get_def ChunkData_set_def inBounds_def index_def CHUNK_SIZE_def
      typed_read_def typed_write_def ChunkData_existing_def markChunkMeshDirty_def Let_def)

lemma ex_far_chunks: "chunks example_far_store =
        [((0, 0), \<lparr>chunk = ChunkData_existing 0 0 ((replicate 24576 Air)[0 := Stone]),
                   dirty = False, meshDirty = False, lastTouched = 0\<rparr>),
         ((0, 1), \<lparr>chunk = ChunkData_existing 0 1 ((replicate 24576 Air)[0 := Dirt]),
                   dirty = True, meshDirty = False, lastTouched = 0\<rparr>)]"
  by (simp add: example_far_store_def)

lemma ex_unload_edit: "example_unload_edit = (snd (WorldStore_setBlock example_far_store 0 0 0 Air 1), example_unload_task)"
  by (simp add: example_unload_edit_def while_suspended_def ex_unload_call ex_far_edit Let_def has_chunk_def
      ex_far_chunks example_unload_task_def)

lemma ex_unload_end: "example_unload_end =
   \<lparr>ur_store = example_far_store\<lparr>chunks := []\<rparr>,
    ur_repo = example_repo\<lparr>stored_chunks := [(42, 0, 1) \<mapsto> (replicate 24576 Air)[0 := Dirt]]\<rparr>,
    ur_trace = [SaveChunk (42, 0, 1) ((replicate 24576 Air)[0 := Dirt]), DeleteChunk (0, 0), DeleteChunk (0, 1)],
    ur_status = Fulfilled\<rparr>"
  by (simp add: example_unload_end_def ex_unload_edit ex_unload_call ex_far_edit unloadFarChunks_resume_def saveChunk_def
      example_repo_def example_unload_task_def unload_proceed_def AList.delete_eq)

text \<open>
  C5. The claim fails when the store is edited while \<^verbatim>\<open>unloadFarChunks\<close> awaits a
  save. The call below passes the clean chunk (0, 0), puts it on the removals, and is
  suspended at the save of the dirty chunk (0, 1). During the suspension
  \<^verbatim>\<open>setBlock\<close> removes the stone block of chunk (0, 0) and sets its dirty flag. The
  method resumes, ends its first loop and deletes both chunks: chunk (0, 0) is deleted
  with its dirty flag set, \<^verbatim>\<open>saveChunk\<close> was called for chunk (0, 1) only, and the
  repository holds nothing for chunk (0, 0), so the edit is lost.
\<close>

theorem unload_drops_edit_made_during_save:
  "ur_status example_unload_call = Awaiting example_unload_task
   \<and> ur_store example_unload_call = example_far_store
   \<and> ur_trace example_unload_call = [SaveChunk (42, 0, 1) ((replicate 24576 Air)[0 := Dirt])]
   \<and> fst (WorldStore_setBlock (ur_store example_unload_call) 0 0 0 Air 1)
   \<and> map_option dirty (map_of (chunks (fst example_unload_edit)) (0, 0)) = Some True
   \<and> ur_status example_unload_end = Fulfilled
   \<and> ur_trace example_unload_end
       = [SaveChunk (42, 0, 1) ((replicate 24576 Air)[0 := Dirt]), DeleteChunk (0, 0), DeleteChunk (0, 1)]
   \<and> chunks (ur_store example_unload_end) = []
   \<and> stored_chunks (ur_repo example_unload_end) (42, 0, 0) = None"
proof -
  have e: "fst (WorldStore_setBlock example_far_store 0 0 0 Air 1)" by (simp add: ex_far_edit)
  have d: "map_option dirty (map_of (chunks (fst example_unload_edit)) (0, 0)) = Some True"
    by (simp add: ex_unload_edit ex_far_edit)
  show ?thesis by (simp add: ex_unload_call ex_unload_end e d example_repo_def)
qed


subsection \<open>Writing the block a cell already holds\<close>

lemma WorldStore_setBlock_same:
  assumes "fst (WorldStore_getBlock ws x y z t) = Some b"
  shows "WorldStore_setBlock ws x y z b now = (False, ws)"
  using assms
  by (auto simp: WorldStore_getBlock_def WorldStore_setBlock_def Let_def split: option.splits if_splits)

lemma AW_setBlock_same:
  assumes "fst (AW_getBlock w x y z) = Some b"
  shows "AW_setBlock w x y z b = (False, snd (AW_getBlock w x y z))"
  using assms
  by (auto simp: AW_getBlock_def AW_setBlock_def Let_def split: prod.splits if_splits)

lemma getChunk_dirty [simp]: "aw_dirty (snd (getChunk w cx cz)) = aw_dirty w"
  by (simp add: getChunk_def Let_def split: option.split)

lemma getChunk_cached:
  "aw_chunks w (chunkKey cx cz) = Some c \<Longrightarrow> getChunk w cx cz = (c, w)"
  by (simp add: getChunk_def)

lemma getChunk_chunks:
  "aw_chunks (snd (getChunk w cx cz)) = (aw_chunks w)(chunkKey cx cz \<mapsto> fst (getChunk w cx cz))"
  by (auto simp: getChunk_def Let_def split: option.split)

lemma AW_getBlock_dirty [simp]: "aw_dirty (snd (AW_getBlock w x y z)) = aw_dirty w"
  by (simp add: AW_getBlock_def Let_def split: prod.split) (metis getChunk_dirty snd_conv)

text \<open>
  C10. Setting a cell to the block it already holds returns false and changes nothing:
  the client store is returned as it was (no dirty or mesh-dirty flag, no neighbour
  touched), and on the server the dirty set is unchanged and the world is exactly what
  reading the cell leaves behind.
\<close>

theorem setBlock_same_block_noop:
  "(fst (WorldStore_getBlock ws x y z t) = Some b \<longrightarrow>
      WorldStore_setBlock ws x y z b now = (False, ws))
   \<and> (fst (AW_getBlock w x y z) = Some b \<longrightarrow>
        fst (AW_setBlock w x y z b) = False
        \<and> aw_dirty (snd (AW_setBlock w x y z b)) = aw_dirty w
        \<and> snd (AW_setBlock w x y z b) = snd (AW_getBlock w x y z))"
  by (simp add: WorldStore_setBlock_same AW_setBlock_same)


theorem setBlock_same_block_noop_witness:
  "fst (WorldStore_getBlock example_dirty_store 0 0 0 1) = Some Stone
   \<and> WorldStore_setBlock example_dirty_store 0 0 0 Stone 2 = (False, example_dirty_store)
   \<and> fst (AW_getBlock example_world 0 0 0) = Some Stone
   \<and> fst (AW_setBlock example_world 0 0 0 Stone) = False
   \<and> aw_dirty (snd (AW_setBlock example_world 0 0 0 Stone)) = aw_dirty example_world"
proof -
  have l: "worldToChunkLocal 0 0 = \<lparr>loc_cx = 0, loc_cz = 0, loc_lx = 0, loc_lz = 0\<rparr>"
    by (simp add: worldToChunkLocal_def floorDiv_def mod_js_def js_rem_def)
  have h1: "fst (WorldStore_getBlock example_dirty_store 0 0 0 1) = Some Stone"
    by (simp add: WorldStore_getBlock_def l example_dirty_store_def WORLD_HEIGHT_def chunkKey_def
        ChunkData_get_def inBounds_def CHUNK_SIZE_def typed_read_def index_def
        ChunkData_existing_def)
  have h2: "fst (AW_getBlock example_world 0 0 0) = Some Stone"
    by (simp add: AW_getBlock_def getChunk_def example_world_def WORLD_HEIGHT_def chunkKey_def
        ChunkData_get_def inBounds_def CHUNK_SIZE_def typed_read_def index_def
        ChunkData_existing_def mod_js_def js_rem_def)
  show ?thesis
    using setBlock_same_block_noop[of example_dirty_store 0 0 0 1 Stone 2 example_world] h1 h2
    by simp
qed

subsection \<open>Mining twice\<close>

lemma getChunk_stores:
  "getChunk w cx cz = (c, w') \<Longrightarrow> aw_chunks w' (chunkKey cx cz) = Some c"
  by (auto simp: getChunk_def Let_def split: option.splits)

lemma getChunk_idem:
  "getChunk w cx cz = (c, w') \<Longrightarrow> getChunk w' cx cz = (c, w')"
  using getChunk_stores[of w cx cz c w'] by (simp add: getChunk_cached)

lemma AW_getBlock_idem:
  assumes "AW_getBlock w x y z = (blk, w')"
  shows "AW_getBlock w' x y z = (blk, w')"
proof (cases "y < 0 \<or> y \<ge> WORLD_HEIGHT")
  case True
  with assms show ?thesis by (simp add: AW_getBlock_def)
next
  case False
  let ?cx = "\<lfloor>real_of_int \<lfloor>x\<rfloor> / real_of_int CHUNK_SIZE\<rfloor>"
  let ?cz = "\<lfloor>real_of_int \<lfloor>z\<rfloor> / real_of_int CHUNK_SIZE\<rfloor>"
  obtain c w1 where g: "getChunk w ?cx ?cz = (c, w1)" by (cases "getChunk w ?cx ?cz")
  from assms False g have e: "w' = w1" "blk = ChunkData_get c (mod_js \<lfloor>x\<rfloor> CHUNK_SIZE) y (mod_js \<lfloor>z\<rfloor> CHUNK_SIZE)"
    by (simp_all add: AW_getBlock_def Let_def)
  from getChunk_idem[OF g] False show ?thesis
    by (simp add: AW_getBlock_def Let_def e)
qed

lemma ChunkData_set_get:
  assumes "ChunkData_get c lx y lz = Some b" "b \<noteq> Air"
  shows "ChunkData_get (ChunkData_set c lx y lz v) lx y lz = Some v"
  using assms
  by (auto simp: ChunkData_get_def ChunkData_set_def typed_read_def typed_write_def split: if_splits)

lemma AW_setBlock_after_get:
  assumes "AW_getBlock w x y z = (Some b, w1)" "b \<noteq> v" "b \<noteq> Air"
  shows "\<exists>w2. AW_setBlock w1 x y z v = (True, w2) \<and> AW_getBlock w2 x y z = (Some v, w2)"
proof -
  have range: "\<not> (y < 0 \<or> y \<ge> WORLD_HEIGHT)"
    using assms by (auto simp: AW_getBlock_def)
  let ?cx = "\<lfloor>real_of_int \<lfloor>x\<rfloor> / real_of_int CHUNK_SIZE\<rfloor>"
  let ?cz = "\<lfloor>real_of_int \<lfloor>z\<rfloor> / real_of_int CHUNK_SIZE\<rfloor>"
  let ?lx = "mod_js \<lfloor>x\<rfloor> CHUNK_SIZE"
  let ?lz = "mod_js \<lfloor>z\<rfloor> CHUNK_SIZE"
  obtain c w' where g: "getChunk w ?cx ?cz = (c, w')" by (cases "getChunk w ?cx ?cz")
  from assms(1) range g have e: "w1 = w'" "ChunkData_get c ?lx y ?lz = Some b"
    by (simp_all add: AW_getBlock_def Let_def)
  have g1: "getChunk w1 ?cx ?cz = (c, w1)" using getChunk_idem[OF g] e by simp
  let ?c' = "ChunkData_set c ?lx y ?lz v"
  let ?w2 = "w1\<lparr>aw_chunks := (aw_chunks w1)(chunkKey ?cx ?cz \<mapsto> ?c'),
                 aw_dirty := finsert (chunkKey ?cx ?cz) (aw_dirty w1)\<rparr>"
  have s: "AW_setBlock w1 x y z v = (True, ?w2)"
    using range g1 e(2) assms(2) by (simp add: AW_setBlock_def Let_def)
  have g2: "getChunk ?w2 ?cx ?cz = (?c', ?w2)" by (simp add: getChunk_cached)
  have "AW_getBlock ?w2 x y z = (Some v, ?w2)"
    using range g2 ChunkData_set_get[OF e(2) assms(3), of v]
    by (simp add: AW_getBlock_def Let_def)
  with s show ?thesis by blast
qed

lemma withinReach_position:
  "sp_position p' = sp_position p \<Longrightarrow> withinReach p' x y z r = withinReach p x y z r"
  by (simp add: withinReach_def)

text \<open>
  C7. After a first \<open>action_mine\<close> on a non-air block, a second one from the same
  player on the same target that arrives before max(0.2, hardness) * 180 ms have passed
  since the player's last successful mine leaves the room and the player exactly as the first one
  left them (world, inventory, delta buffer, timestamps) and sends nothing.
\<close>

theorem mine_again_too_soon_noop:
  assumes first: "handleMineAction room player x y z t1 = Inr (room1, player1, out1)"
    and target: "fst (AW_getBlock (room_world room) (of_int \<lfloor>x\<rfloor>) \<lfloor>y\<rfloor> (of_int \<lfloor>z\<rfloor>)) = Some b"
    and solid: "b \<noteq> Air"
    and props: "BLOCK_DEFS b = Some d"
    and soon: "of_int (t2 - lastMineAtMs player1) < max (2 / 10) (def_hardness d) * 180"
  shows "handleMineAction room1 player1 x y z t2 = Inr (room1, player1, [])"
proof (cases "withinReach player \<lfloor>x\<rfloor> \<lfloor>y\<rfloor> \<lfloor>z\<rfloor> (62 / 10)")
  case False
  with first have "room1 = room" "player1 = player" by (simp_all add: handleMineAction_def Let_def)
  with False show ?thesis by (simp add: handleMineAction_def Let_def)
next
  case reach: True
  obtain w1 where g: "AW_getBlock (room_world room) (of_int \<lfloor>x\<rfloor>) \<lfloor>y\<rfloor> (of_int \<lfloor>z\<rfloor>) = (Some b, w1)"
    using target by (cases "AW_getBlock (room_world room) (of_int \<lfloor>x\<rfloor>) \<lfloor>y\<rfloor> (of_int \<lfloor>z\<rfloor>)") simp
  have g1: "AW_getBlock w1 (of_int \<lfloor>x\<rfloor>) \<lfloor>y\<rfloor> (of_int \<lfloor>z\<rfloor>) = (Some b, w1)"
    using g by (rule AW_getBlock_idem)
  show ?thesis
  proof (cases "b = Water")
    case True
    with first reach g have e: "room1 = room\<lparr>room_world := w1\<rparr>" "player1 = player"
      by (simp_all add: handleMineAction_def Let_def)
    show ?thesis using reach g1 True by (simp add: handleMineAction_def Let_def e)
  next
    case nw: False
    show ?thesis
    proof (cases "of_int (t1 - lastMineAtMs player) < max (2 / 10) (def_hardness d) * 180")
      case True
      with first reach g nw solid props have e: "room1 = room\<lparr>room_world := w1\<rparr>" "player1 = player"
        by (simp_all add: handleMineAction_def Let_def)
      show ?thesis using reach g1 nw solid props soon
        by (simp add: handleMineAction_def Let_def e)
    next
      case False
      obtain w2 where s: "AW_setBlock w1 (of_int \<lfloor>x\<rfloor>) \<lfloor>y\<rfloor> (of_int \<lfloor>z\<rfloor>) Air = (True, w2)"
        and g2: "AW_getBlock w2 (of_int \<lfloor>x\<rfloor>) \<lfloor>y\<rfloor> (of_int \<lfloor>z\<rfloor>) = (Some Air, w2)"
        using AW_setBlock_after_get[OF g solid solid] by blast
      from first reach g nw solid props False s
      have e: "room_world room1 = w2" "sp_position player1 = sp_position player"
        by (auto simp: handleMineAction_def Let_def split: option.splits)
      have r1: "withinReach player1 \<lfloor>x\<rfloor> \<lfloor>y\<rfloor> \<lfloor>z\<rfloor> (62 / 10)"
        using reach withinReach_position[OF e(2)] by simp
      have "room1\<lparr>room_world := w2\<rparr> = room1" using e(1) by simp
      then show ?thesis using r1 g2 e(1) by (simp add: handleMineAction_def Let_def)
    qed
  qed
qed

lemma ex_getBlock: "AW_getBlock example_world 0 0 0 = (Some Stone, example_world)"
  by (simp add: AW_getBlock_def getChunk_def example_world_def WORLD_HEIGHT_def chunkKey_def
        ChunkData_get_def inBounds_def CHUNK_SIZE_def typed_read_def index_def
        ChunkData_existing_def mod_js_def js_rem_def)

lemma ex_reach: "withinReach example_player 0 0 0 (62 / 10)"
  by (simp add: withinReach_def distanceSquared_def PLAYER_EYE_HEIGHT_def example_player_def
      power2_eq_square)

lemma ex_setBlock:
  "AW_setBlock example_world 0 0 0 Air = (True, room_world example_room_mined)"
  by (simp add: AW_setBlock_def getChunk_def example_world_def WORLD_HEIGHT_def chunkKey_def
        ChunkData_get_def ChunkData_set_def inBounds_def CHUNK_SIZE_def typed_read_def
        typed_write_def index_def ChunkData_existing_def mod_js_def js_rem_def Let_def
        example_room_mined_def)

lemma ex_addItem:
  "snd (addItem createStarterInventory stone 1) = sp_inventory example_player_mined"
  by (simp add: addItem_def createStarterInventory_def MAX_STACK_def example_player_mined_def Let_def)

lemma ex_mine:
  "handleMineAction example_room example_player 0 0 0 1000
     = Inr (example_room_mined, example_player_mined,
            [inventory_update (inv_hotbar (sp_inventory example_player_mined)) 0])"
proof -
  have inv: "sp_inventory (example_player\<lparr>lastMineAtMs := 1000\<rparr>) = createStarterInventory"
    by (simp add: example_player_def)
  have p: "example_player\<lparr>lastMineAtMs := 1000,
             sp_inventory := sp_inventory example_player_mined\<rparr> = example_player_mined"
    by (simp add: example_player_mined_def example_player_def)
  show ?thesis
    using ex_reach
    apply (simp add: handleMineAction_def Let_def example_room_def ex_getBlock BLOCK_DEFS_def
        ex_setBlock inv ex_addItem p sendInventory_def send_def)
    apply (simp add: example_player_def example_player_mined_def example_room_mined_def)
    done
qed

theorem mine_again_too_soon_noop_witness:
  "handleMineAction example_room example_player 0 0 0 1000
     = Inr (example_room_mined, example_player_mined,
            [inventory_update (inv_hotbar (sp_inventory example_player_mined)) 0])
   \<and> handleMineAction example_room_mined example_player_mined 0 0 0 1100
     = Inr (example_room_mined, example_player_mined, [])"
proof -
  have target: "fst (AW_getBlock (room_world example_room) (of_int \<lfloor>0::real\<rfloor>) \<lfloor>0::real\<rfloor> (of_int \<lfloor>0::real\<rfloor>)) = Some Stone"
    by (simp add: example_room_def ex_getBlock)
  have solid: "Stone \<noteq> Air" by simp
  have props: "BLOCK_DEFS Stone = Some \<lparr>def_solid = True, def_hardness = 22 / 10, def_drop = Some stone\<rparr>"
    by (simp add: BLOCK_DEFS_def)
  have soon: "of_int (1100 - lastMineAtMs example_player_mined)
      < max (2 / 10) (def_hardness \<lparr>def_solid = True, def_hardness = 22 / 10, def_drop = Some stone\<rparr>) * 180"
    by (simp add: example_player_mined_def example_player_def)
  show ?thesis
    using mine_again_too_soon_noop[OF ex_mine target solid props soon] ex_mine by simp
qed

subsection \<open>Rejected placements\<close>








subsection \<open>Client reconciliation\<close>

lemma dropWhile_sorted_filter:
  "sorted_wrt (<) (map f xs) \<Longrightarrow> dropWhile (\<lambda>x. f x \<le> a) xs = filter (\<lambda>x. a < f x) xs"
  for f :: "'a \<Rightarrow> int"
proof (induction xs)
  case Nil
  then show ?case by simp
next
  case (Cons x xs)
  show ?case
  proof (cases "f x \<le> a")
    case True
    with Cons show ?thesis by simp
  next
    case False
    then have "\<forall>y \<in> set xs. a < f y" using Cons.prems by auto
    then have "filter (\<lambda>x. a < f x) xs = xs" by (simp add: filter_id_conv)
    with False show ?thesis by simp
  qed
qed

lemma sorted_wrt_tl: "sorted_wrt P xs \<Longrightarrow> sorted_wrt P (tl xs)"
  by (cases xs) simp_all

lemma bufferInput_inv: "pending_inv g \<Longrightarrow> pending_inv (bufferInput g input)"
proof -
  assume inv: "pending_inv g"
  let ?new = "input\<lparr>in_seq := inputSeq g + 1\<rparr>"
  let ?p = "pendingInputs g @ [?new]"
  have s: "sorted_wrt (<) (map in_seq ?p)"
    using inv by (auto simp: pending_inv_def sorted_wrt_append)
  have b: "\<forall>i \<in> set ?p. in_seq i \<le> inputSeq g + 1"
    using inv by (auto simp: pending_inv_def)
  have s': "sorted_wrt (<) (map in_seq (tl ?p))"
    using sorted_wrt_tl[OF s] by (simp add: map_tl)
  have b': "\<forall>i \<in> set (tl ?p). in_seq i \<le> inputSeq g + 1"
    using b by (metis list.set_sel(2) tl_Nil)
  show ?thesis
    using s b s' b' by (simp add: pending_inv_def bufferInput_def Let_def)
qed

lemma reconcile_inv: "pending_inv g \<Longrightarrow> pending_inv (applyLocalReconciliation g state)"
proof -
  assume inv: "pending_inv g"
  have d: "sorted_wrt (<) (map in_seq (dropWhile P (pendingInputs g)))" for P
    using inv by (simp add: pending_inv_def dropWhile_eq_drop drop_map[symmetric] sorted_wrt_drop)
  have m: "\<forall>i \<in> set (dropWhile P (pendingInputs g)). in_seq i \<le> inputSeq g" for P
    using inv by (auto simp: pending_inv_def dest: set_dropWhileD)
  show ?thesis using inv d m
    by (simp add: pending_inv_def applyLocalReconciliation_def Let_def split: option.split)
qed

lemma client_reachable_inv: "client_reachable g \<Longrightarrow> pending_inv g"
proof (induction rule: client_reachable.induct)
  case (c_new p i n)
  show ?case by (simp add: pending_inv_def)
next
  case (c_input g input)
  then show ?case by (simp add: bufferInput_inv)
next
  case (c_reconcile g state)
  then show ?case by (simp add: reconcile_inv)
next
  case (c_other g p i n)
  then show ?case by (simp add: pending_inv_def)
qed

lemma setSelected_in_range:
  assumes "0 \<le> i" "i < 9"
  shows "js_rem (js_rem i HOTBAR_SIZE + HOTBAR_SIZE) HOTBAR_SIZE = i"
proof -
  have a: "js_rem i 9 = i" using assms js_rem_nonneg[of i 9] by simp
  have "js_rem (i + 9) 9 = (i + 9) mod 9" using assms js_rem_nonneg[of "i + 9" 9] by simp
  also have "\<dots> = i" using assms by simp
  finally show ?thesis using a by (simp add: HOTBAR_SIZE_def)
qed

text \<open>
  C6. Reconciling the local player with a snapshot overwrites velocity, health, yaw and
  pitch with the snapshot's values whatever the distance between the positions, replaces
  the inventory by one built from the snapshot's hotbar and selected slot (equal to them
  for a nine-slot hotbar and a slot in 0..8), and, when the snapshot carries a
  last-processed sequence number, keeps exactly the buffered inputs with a larger
  sequence number. The buffered inputs never enter the player's new state: nothing is
  replayed.
\<close>

theorem reconciliation_overwrites_and_acks:
  assumes "client_reachable g"
  shows "pc_velocity (mg_player (applyLocalReconciliation g st))
           = \<lparr>vec_x = ns_vx st, vec_y = ns_vy st, vec_z = ns_vz st\<rparr>
       \<and> pc_health (mg_player (applyLocalReconciliation g st)) = ns_health st
       \<and> pc_yaw (mg_player (applyLocalReconciliation g st)) = ns_yaw st
       \<and> pc_pitch (mg_player (applyLocalReconciliation g st)) = ns_pitch st
       \<and> mg_inventory (applyLocalReconciliation g st)
           = setSelected (Inventory_new (ns_hotbar st)) (ns_selectedSlot st)
       \<and> (length (ns_hotbar st) = 9 \<and> 0 \<le> ns_selectedSlot st \<and> ns_selectedSlot st < 9 \<longrightarrow>
            mg_inventory (applyLocalReconciliation g st)
              = \<lparr>inv_hotbar = ns_hotbar st, inv_selectedSlot = ns_selectedSlot st\<rparr>)
       \<and> (\<forall>acked. ns_lastProcessedSeq st = Some acked \<longrightarrow>
            pendingInputs (applyLocalReconciliation g st)
              = filter (\<lambda>i. acked < in_seq i) (pendingInputs g))
       \<and> mg_player (applyLocalReconciliation (g\<lparr>pendingInputs := buffered\<rparr>) st)
           = mg_player (applyLocalReconciliation g st)"
proof -
  have srt: "sorted_wrt (<) (map in_seq (pendingInputs g))"
    using client_reachable_inv[OF assms] by (simp add: pending_inv_def)
  have inv9: "length (ns_hotbar st) = 9 \<Longrightarrow> 0 \<le> ns_selectedSlot st \<Longrightarrow> ns_selectedSlot st < 9 \<Longrightarrow>
      setSelected (Inventory_new (ns_hotbar st)) (ns_selectedSlot st)
        = \<lparr>inv_hotbar = ns_hotbar st, inv_selectedSlot = ns_selectedSlot st\<rparr>"
    using setSelected_in_range[of "ns_selectedSlot st"]
    by (simp add: setSelected_def Inventory_new_def HOTBAR_SIZE_def)
  have ack: "ns_lastProcessedSeq st = Some acked \<Longrightarrow>
      pendingInputs (applyLocalReconciliation g st) = filter (\<lambda>i. acked < in_seq i) (pendingInputs g)"
    for acked
    using dropWhile_sorted_filter[OF srt, of acked]
    by (simp add: applyLocalReconciliation_def Let_def)
  show ?thesis
    using inv9 ack by (simp add: applyLocalReconciliation_def Let_def)
qed


theorem reconciliation_overwrites_and_acks_witness:
  "client_reachable example_game
   \<and> map in_seq (pendingInputs example_game) = [1, 2, 3]
   \<and> map in_seq (pendingInputs (applyLocalReconciliation example_game example_snapshot)) = [3]
   \<and> pc_health (mg_player (applyLocalReconciliation example_game example_snapshot)) = 18
   \<and> pc_velocity (mg_player (applyLocalReconciliation example_game example_snapshot))
       = \<lparr>vec_x = 1, vec_y = - 2, vec_z = 0\<rparr>
   \<and> mg_inventory (applyLocalReconciliation example_game example_snapshot)
       = \<lparr>inv_hotbar = inv_hotbar createStarterInventory, inv_selectedSlot = 2\<rparr>"
proof -
  have r: "client_reachable example_game"
    unfolding example_game_def Let_def by (intro c_input c_new)
  have p: "map in_seq (pendingInputs example_game) = [1, 2, 3]"
    by (simp add: example_game_def bufferInput_def Let_def)
  have l: "length (ns_hotbar example_snapshot) = 9 \<and> 0 \<le> ns_selectedSlot example_snapshot
      \<and> ns_selectedSlot example_snapshot < 9"
    by (simp add: example_snapshot_def createStarterInventory_def)
  have a: "ns_lastProcessedSeq example_snapshot = Some 2" by (simp add: example_snapshot_def)
  have f: "map in_seq (filter (\<lambda>i. 2 < in_seq i) (pendingInputs example_game)) = [3]"
    by (simp add: example_game_def bufferInput_def Let_def)
  have v: "ns_health example_snapshot = 18" "ns_vx example_snapshot = 1"
    "ns_vy example_snapshot = - 2" "ns_vz example_snapshot = 0"
    "ns_hotbar example_snapshot = inv_hotbar createStarterInventory"
    "ns_selectedSlot example_snapshot = 2"
    by (simp_all add: example_snapshot_def)
  note t = reconciliation_overwrites_and_acks[OF r, of example_snapshot]
  from t l have i: "mg_inventory (applyLocalReconciliation example_game example_snapshot)
      = \<lparr>inv_hotbar = ns_hotbar example_snapshot, inv_selectedSlot = ns_selectedSlot example_snapshot\<rparr>"
    by blast
  from t a have pd: "pendingInputs (applyLocalReconciliation example_game example_snapshot)
      = filter (\<lambda>i. 2 < in_seq i) (pendingInputs example_game)"
    by blast
  from t have h: "pc_health (mg_player (applyLocalReconciliation example_game example_snapshot))
      = ns_health example_snapshot"
    and vel: "pc_velocity (mg_player (applyLocalReconciliation example_game example_snapshot))
      = \<lparr>vec_x = ns_vx example_snapshot, vec_y = ns_vy example_snapshot, vec_z = ns_vz example_snapshot\<rparr>"
    by blast+
  show ?thesis
    unfolding i pd h vel v using r p f by simp
qed

subsection \<open>Deterministic generation\<close>

lemma view_update:
  assumes "obj_blocks c < length mem" "cd_cx ch = obj_cx c" "cd_cz ch = obj_cz c"
  shows "view (mem[obj_blocks c := blocks ch]) c = ch"
  using assms by (simp add: view_def)

lemma view_fields [simp]: "cd_cx (view mem c) = obj_cx c" "cd_cz (view mem c) = obj_cz c"
  "blocks (view mem c) = mem ! obj_blocks c"
  by (simp_all add: view_def)

lemma chunk_get_view: "chunk_get mem c x y z = ChunkData_get (view mem c) x y z"
  by (simp add: chunk_get_def ChunkData_get_def)

lemma ChunkData_set_coords [simp]:
  "cd_cx (ChunkData_set ch x y z v) = cd_cx ch" "cd_cz (ChunkData_set ch x y z v) = cd_cz ch"
  by (simp_all add: ChunkData_set_def)

lemma simulates_set: "simulates (\<lambda>c. chunk_set c x y z v) (\<lambda>ch. ChunkData_set ch x y z v)"
  by (simp add: simulates_def chunk_set_def ChunkData_set_def)

lemma simulates_id: "simulates (\<lambda>c mem. mem) (\<lambda>ch. ch)"
  by (simp add: simulates_def)

lemma simulates_comp:
  assumes "simulates fm f" "simulates gm g"
  shows "simulates (\<lambda>c mem. gm c (fm c mem)) (\<lambda>ch. g (f ch))"
proof -
  have a: "fm c mem = mem[obj_blocks c := blocks (f (view mem c))]" if "obj_blocks c < length mem" for c mem
    using assms(1) that by (simp add: simulates_def)
  have b: "gm c mem = mem[obj_blocks c := blocks (g (view mem c))]" if "obj_blocks c < length mem" for c mem
    using assms(2) that by (simp add: simulates_def)
  have fc: "cd_cx (f ch) = cd_cx ch \<and> cd_cz (f ch) = cd_cz ch" for ch
    using assms(1) by (simp add: simulates_def)
  have gc: "cd_cx (g ch) = cd_cx ch \<and> cd_cz (g ch) = cd_cz ch" for ch
    using assms(2) by (simp add: simulates_def)
  have "gm c (fm c mem) = mem[obj_blocks c := blocks (g (f (view mem c)))]"
    if l: "obj_blocks c < length mem" for c mem
  proof -
    let ?m = "mem[obj_blocks c := blocks (f (view mem c))]"
    have v: "view ?m c = f (view mem c)"
      using l fc[of "view mem c"] by (intro view_update) simp_all
    have "gm c (fm c mem) = gm c ?m" using a[OF l] by simp
    also have "\<dots> = ?m[obj_blocks c := blocks (g (view ?m c))]" using l by (intro b) simp
    finally show ?thesis by (simp add: v)
  qed
  then show ?thesis using fc gc by (simp add: simulates_def)
qed

lemma simulates_fold:
  assumes "\<And>x. simulates (fm x) (f x)"
  shows "simulates (\<lambda>c mem. fold (\<lambda>x m. fm x c m) xs mem) (\<lambda>ch. fold f xs ch)"
proof (induction xs)
  case Nil
  show ?case using simulates_id by simp
next
  case (Cons x xs)
  show ?case using simulates_comp[OF assms[of x] Cons] by simp
qed


lemma simulatesD:
  assumes "simulates fm f" "obj_blocks c < length mem"
  shows "fm c mem = mem[obj_blocks c := blocks (f (view mem c))]"
  using assms by (simp add: simulates_def)

lemma simulates_coords:
  assumes "simulates fm f"
  shows "cd_cx (f ch) = cd_cx ch" "cd_cz (f ch) = cd_cz ch"
  using assms by (simp_all add: simulates_def)

lemma simulatesI:
  assumes "\<And>c mem. obj_blocks c < length mem \<Longrightarrow> fm c mem = mem[obj_blocks c := blocks (f (view mem c))]"
    and "\<And>ch. cd_cx (f ch) = cd_cx ch" "\<And>ch. cd_cz (f ch) = cd_cz ch"
  shows "simulates fm f"
  using assms by (simp add: simulates_def)

lemma simulates_fill_column:
  "simulates (fill_column_mem g cx cz lx lz) (fill_column g cx cz lx lz)"
  unfolding fill_column_mem_def fill_column_def Let_def
  by (rule simulates_fold) (rule simulates_set)

lemma findSurface_view: "findSurface_mem mem c lx lz = findSurface (view mem c) lx lz"
  by (simp add: findSurface_mem_def findSurface_def chunk_get_view)

lemma simulates_leaf_at:
  "simulates (leaf_at_mem lx lz crownBase ox oz oy) (leaf_at lx lz crownBase ox oz oy)"
proof (rule simulatesI)
  fix c :: ChunkObject and mem :: Memory assume l: "obj_blocks c < length mem"
  show "leaf_at_mem lx lz crownBase ox oz oy c mem
      = mem[obj_blocks c := blocks (leaf_at lx lz crownBase ox oz oy (view mem c))]"
    using simulatesD[OF simulates_set l]
    by (simp add: leaf_at_mem_def leaf_at_def Let_def chunk_get_view)
next
  fix ch show "cd_cx (leaf_at lx lz crownBase ox oz oy ch) = cd_cx ch"
    by (simp add: leaf_at_def Let_def)
next
  fix ch show "cd_cz (leaf_at lx lz crownBase ox oz oy ch) = cd_cz ch"
    by (simp add: leaf_at_def Let_def)
qed

lemma simulates_crown:
  "simulates
     (\<lambda>c mem. fold (\<lambda>ox m. fold (\<lambda>oz m. fold (\<lambda>oy m. leaf_at_mem lx lz crownBase ox oz oy c m)
                                          [0..2] m) [-2..2] m) [-2..2] mem)
     (\<lambda>ch. fold (\<lambda>ox c. fold (\<lambda>oz c. fold (\<lambda>oy c. leaf_at lx lz crownBase ox oz oy c)
                                          [0..2] c) [-2..2] c) [-2..2] ch)"
  by (rule simulates_fold, rule simulates_fold, rule simulates_fold) (rule simulates_leaf_at)

lemma simulates_trunk:
  "simulates (\<lambda>c mem. fold (\<lambda>y m. chunk_set c lx (groundY + y) lz Wood m) ys mem)
     (\<lambda>ch. fold (\<lambda>y c. ChunkData_set c lx (groundY + y) lz Wood) ys ch)"
  by (rule simulates_fold) (rule simulates_set)

lemma simulates_tree_at: "simulates (tree_at_mem g lx lz) (tree_at g lx lz)"
proof (rule simulatesI)
  fix c :: ChunkObject and mem :: Memory assume l: "obj_blocks c < length mem"
  show "tree_at_mem g lx lz c mem = mem[obj_blocks c := blocks (tree_at g lx lz (view mem c))]"
    using simulatesD[OF simulates_comp[OF simulates_trunk simulates_crown] l]
    by (simp add: tree_at_mem_def tree_at_def Let_def chunk_get_view findSurface_view
        del: upto_rec_numeral)
next
  fix ch show "cd_cx (tree_at g lx lz ch) = cd_cx ch"
    using simulates_coords(1)[OF simulates_comp[OF simulates_trunk simulates_crown]]
    by (simp add: tree_at_def Let_def del: upto_rec_numeral)
next
  fix ch show "cd_cz (tree_at g lx lz ch) = cd_cz ch"
    using simulates_coords(2)[OF simulates_comp[OF simulates_trunk simulates_crown]]
    by (simp add: tree_at_def Let_def del: upto_rec_numeral)
qed

lemma simulates_generateTrees: "simulates (generateTrees_mem g) (generateTrees g)"
  unfolding generateTrees_mem_def generateTrees_def
  by (rule simulates_fold, rule simulates_fold) (rule simulates_tree_at)

lemma simulates_fill:
  "simulates
     (\<lambda>c mem. fold (\<lambda>lx m. fold (\<lambda>lz m. fill_column_mem g cx cz lx lz c m) [0..CHUNK_SIZE - 1] m)
                 [0..CHUNK_SIZE - 1] mem)
     (\<lambda>ch. fold (\<lambda>lx c. fold (\<lambda>lz c. fill_column g cx cz lx lz c) [0..CHUNK_SIZE - 1] c)
                 [0..CHUNK_SIZE - 1] ch)"
  by (rule simulates_fold, rule simulates_fold) (rule simulates_fill_column)

lemma generateChunk_mem_eq:
  "generateChunk_mem g cx cz mem
     = (\<lparr>obj_cx = cx, obj_cz = cz, obj_blocks = length mem\<rparr>,
        mem @ [blocks (generateChunk g cx cz)])"
proof -
  let ?c = "\<lparr>obj_cx = cx, obj_cz = cz, obj_blocks = length mem\<rparr>"
  let ?m = "mem @ [replicate (nat (CHUNK_SIZE * WORLD_HEIGHT * CHUNK_SIZE)) Air]"
  have l: "obj_blocks ?c < length ?m" by simp
  have v: "view ?m ?c = ChunkData_new cx cz" by (simp add: view_def ChunkData_new_def)
  have "generateChunk_mem g cx cz mem
      = (?c, ?m[obj_blocks ?c := blocks (generateChunk g cx cz)])"
    using simulatesD[OF simulates_comp[OF simulates_fill[of g cx cz] simulates_generateTrees[of g]] l]
    unfolding v
    by (simp add: generateChunk_mem_def new_ChunkData_def generateChunk_def Let_def)
  then show ?thesis by simp
qed


lemma fold_keeps_length:
  assumes "\<And>x ch. length (blocks (f x ch)) = length (blocks ch)"
  shows "length (blocks (fold f xs ch)) = length (blocks ch)"
  by (induction xs arbitrary: ch) (simp_all add: assms)

lemma ChunkData_set_length [simp]:
  "length (blocks (ChunkData_set ch x y z v)) = length (blocks ch)"
  by (simp add: ChunkData_set_def typed_write_def)

lemma fill_column_length: "length (blocks (fill_column g cx cz lx lz ch)) = length (blocks ch)"
  unfolding fill_column_def Let_def by (rule fold_keeps_length) simp

lemma leaf_at_length: "length (blocks (leaf_at lx lz crownBase ox oz oy ch)) = length (blocks ch)"
  by (simp add: leaf_at_def Let_def)

lemma crown_length:
  "length (blocks (fold (\<lambda>ox c. fold (\<lambda>oz c. fold (\<lambda>oy c. leaf_at lx lz crownBase ox oz oy c)
                                          [0..2] c) [-2..2] c) [-2..2] ch)) = length (blocks ch)"
  by (rule fold_keeps_length, rule fold_keeps_length, rule fold_keeps_length) (rule leaf_at_length)

lemma trunk_length:
  "length (blocks (fold (\<lambda>y c. ChunkData_set c lx (groundY + y) lz Wood) ys ch)) = length (blocks ch)"
  by (rule fold_keeps_length) simp

lemma tree_at_length: "length (blocks (tree_at g lx lz ch)) = length (blocks ch)"
  by (simp add: tree_at_def Let_def crown_length trunk_length del: upto_rec_numeral)

lemma generateTrees_length: "length (blocks (generateTrees g ch)) = length (blocks ch)"
  unfolding generateTrees_def
  by (rule fold_keeps_length, rule fold_keeps_length) (rule tree_at_length)

lemma generateChunk_length: "length (blocks (generateChunk g cx cz)) = 24576"
proof -
  have "length (blocks (fold (\<lambda>lx c. fold (\<lambda>lz c. fill_column g cx cz lx lz c) [0..CHUNK_SIZE - 1] c)
                     [0..CHUNK_SIZE - 1] (ChunkData_new cx cz))) = length (blocks (ChunkData_new cx cz))"
    by (rule fold_keeps_length, rule fold_keeps_length) (rule fill_column_length)
  then show ?thesis
    by (simp add: generateChunk_def Let_def generateTrees_length ChunkData_new_def
        CHUNK_SIZE_def WORLD_HEIGHT_def)
qed

text \<open>
  C1. Generation reads no state but the array it allocates itself. A call of
  \<^verbatim>\<open>generateChunk(cx, cz)\<close> on a generator made from a seed returns, in whatever memory
  it runs, a chunk object whose array has the same 16 * 96 * 16 block codes, and so the
  same bytes: in particular a second call, which runs in the memory the first call
  left, and a call on another generator made from the same seed (or from a seed with
  the same 32-bit truncation \<^verbatim>\<open>seed | 0\<close>). The call adds that one array to the memory
  and writes to no array that was there before. The array holds the blocks of the chunk
  value that the world store and the server keep.
\<close>

theorem generateChunk_deterministic:
  assumes "toInt32 seed1 = toInt32 seed2"
  shows "blocks_of (generateChunk_mem (WorldGenerator_new seed1) cx cz mem1)
           = blocks_of (generateChunk_mem (WorldGenerator_new seed2) cx cz mem2)
       \<and> bytes_of_u16s (blocks_of (generateChunk_mem (WorldGenerator_new seed1) cx cz mem1))
           = bytes_of_u16s (blocks_of (generateChunk_mem (WorldGenerator_new seed2) cx cz mem2))
       \<and> length (blocks_of (generateChunk_mem (WorldGenerator_new seed1) cx cz mem1)) = 24576
       \<and> snd (generateChunk_mem (WorldGenerator_new seed1) cx cz mem1)
           = mem1 @ [blocks_of (generateChunk_mem (WorldGenerator_new seed1) cx cz mem1)]
       \<and> blocks_of (generateChunk_mem (WorldGenerator_new seed1) cx cz mem1)
           = blocks (generateChunk (WorldGenerator_new seed1) cx cz)"
proof -
  have g: "WorldGenerator_new seed1 = WorldGenerator_new seed2"
    using assms by (simp add: WorldGenerator_new_def)
  have b: "blocks_of (generateChunk_mem gen cx cz mem) = blocks (generateChunk gen cx cz)" for gen mem
    by (simp add: blocks_of_def generateChunk_mem_eq)
  have s: "snd (generateChunk_mem gen cx cz mem) = mem @ [blocks (generateChunk gen cx cz)]" for gen mem
    by (simp add: generateChunk_mem_eq)
  show ?thesis by (simp add: b s g generateChunk_length)
qed

theorem generateChunk_deterministic_witness:
  "toInt32 42 = toInt32 4294967338
   \<and> blocks_of (generateChunk_mem (WorldGenerator_new 42) 0 0 [])
       = blocks_of (generateChunk_mem (WorldGenerator_new 4294967338) 0 0
                     (snd (generateChunk_mem (WorldGenerator_new 42) 0 0 [])))
   \<and> length (blocks_of (generateChunk_mem (WorldGenerator_new 42) 0 0 [])) = 24576"
proof -
  have h: "toInt32 42 = toInt32 4294967338" by (simp add: toInt32_def)
  note t = generateChunk_deterministic[OF h, of 0 0 "[]"
      "snd (generateChunk_mem (WorldGenerator_new 42) 0 0 [])"]
  from t have a: "blocks_of (generateChunk_mem (WorldGenerator_new 42) 0 0 [])
       = blocks_of (generateChunk_mem (WorldGenerator_new 4294967338) 0 0
                     (snd (generateChunk_mem (WorldGenerator_new 42) 0 0 [])))"
    by (rule conjunct1)
  from t have b: "length (blocks_of (generateChunk_mem (WorldGenerator_new 42) 0 0 [])) = 24576"
    by blast
  show ?thesis using h a b by (intro conjI)
qed

end
